theory Spec2Isabelle
  imports Complex_Main
begin

section \<open>Embedding of \<open>Paginas/premissas.py\<close>\<close>

text \<open>
  The simulation lives in \<open>simular_emprestimo\<close> and its two nested functions
  \<open>calcular_fluxos_com_impostos\<close> (the cash-flow builder) and
  \<open>funcao_goal_seek_impostos\<close> (the objective of the root search); the investor
  recovery roll-forward lives in \<open>app\<close>.  Conventions of the embedding:

  \<^item> Python floats are read as \<^typ>\<open>real\<close>: rounding of binary floating point is not
    modelled, every arithmetic operation is the exact one.
  \<^item> Month indices and \<open>num_parcelas\<close> are \<^typ>\<open>nat\<close>.  In \<open>simular_emprestimo\<close>
    the source subtracts 3 only from a month that is at least 4 (a recognition month, or
    the extra index when \<open>num_parcelas \<ge> 3\<close>) and 1 only from a month that is at least
    1, so no slice starts at a negative index.
  \<^item> The three library routines the source calls (\<open>npf.pmt\<close>, \<open>npf.irr\<close> and
    \<open>scipy.optimize.root_scalar(method="brentq")\<close>) are parameters of the model,
    collected in the record \<open>numerico\<close>.
  \<^item> Every \<open>raise\<close> is a value \<open>Inl e\<close> of the result type.
\<close>

subsection \<open>Errors, strings and list primitives\<close>

text \<open>The three places where the source raises (or lets the built-in \<open>max\<close> raise) a
  \<open>ValueError\<close>: line 63 (operation type), line 234 (no root), and \<open>max\<close> of an empty
  sequence.\<close>

datatype erro =
    ValueError_tipo_invalido
  | ValueError_nenhuma_solucao
  | ValueError_max_vazio

text \<open>\<open>str.lower()\<close> on ASCII text.\<close>

definition lower_char :: "char \<Rightarrow> char" where
  "lower_char c =
     (case map_of (zip ''ABCDEFGHIJKLMNOPQRSTUVWXYZ'' ''abcdefghijklmnopqrstuvwxyz'') c of
        Some d \<Rightarrow> d
      | None \<Rightarrow> c)"

definition lower :: "string \<Rightarrow> string" where
  "lower s = map lower_char s"

text \<open>The built-in \<open>max\<close> of a sequence: raises on the empty one.\<close>

fun py_max :: "'a::linorder list \<Rightarrow> erro + 'a" where
  "py_max [] = Inl ValueError_max_vazio"
| "py_max (x # xs) = Inr (fold max xs x)"

text \<open>The list slice \<open>xs[a:b]\<close> for \<open>0 \<le> a\<close>, and the label slice
  \<open>df.loc[a:b, col]\<close> of a column over the default index \<open>0, 1, 2, \<dots>\<close>, which
  includes both ends.\<close>

definition fatia :: "'a list \<Rightarrow> nat \<Rightarrow> nat \<Rightarrow> 'a list" where
  "fatia xs a b = take (b - a) (drop a xs)"

definition loc_fatia :: "'a list \<Rightarrow> nat \<Rightarrow> nat \<Rightarrow> 'a list" where
  "loc_fatia xs a b = take (Suc b - a) (drop a xs)"

subsection \<open>Inputs\<close>

record parametros =
  valor_emprestado :: real
  num_parcelas :: nat
  tir_desejada :: real
  inflacao_anual :: real
  aliquota_pis :: real
  aliquota_cofins :: real
  tipo_operacao :: string
  aliquota_irpj :: real
  aliquota_cssl :: real
  limite_isencao_irpj :: real
  aliquota_adicional_irpj :: real

text \<open>The numerical library: \<open>npf_irr\<close> returns \<open>None\<close> where \<open>npf.irr\<close> returns
  \<open>nan\<close>; \<open>brentq f a b\<close> returns \<open>None\<close> where \<open>root_scalar\<close> raises or reports
  \<open>converged = False\<close>, and the root otherwise.\<close>

record numerico =
  npf_pmt :: "real \<Rightarrow> nat \<Rightarrow> real \<Rightarrow> real"
  npf_irr :: "real list \<Rightarrow> real option"
  brentq :: "(real \<Rightarrow> real) \<Rightarrow> real \<Rightarrow> real \<Rightarrow> real option"

subsection \<open>Tax calendar (lines 49--63)\<close>

definition impostos_meses :: "nat \<Rightarrow> nat list" where
  "impostos_meses n = filter (\<lambda>mes. (mes - 1) mod 3 = 0) [4..<n + 1]"

text \<open>The \<open>while True\<close> loop of lines 55--59, started at \<open>m\<close>.\<close>

function proximo_tributavel :: "nat \<Rightarrow> nat" where
  "proximo_tributavel m =
     (if m \<ge> 4 \<and> (m - 1) mod 3 = 0 then m else proximo_tributavel (m + 1))"
  by pat_completeness auto
termination
proof (relation "measure (\<lambda>m. if m < 4 then 4 - m else (3 - (m - 1) mod 3) mod 3)")
  show "wf (measure (\<lambda>m::nat. if m < 4 then 4 - m else (3 - (m - 1) mod 3) mod 3))"
    by (rule wf_measure)
next
  fix m :: nat
  assume a: "\<not> (4 \<le> m \<and> (m - 1) mod 3 = 0)"
  show "(m + 1, m) \<in> measure (\<lambda>m. if m < 4 then 4 - m else (3 - (m - 1) mod 3) mod 3)"
  proof (cases "m < 3")
    case True
    then show ?thesis by simp
  next
    case False
    show ?thesis
    proof (cases "m = 3")
      case True
      then show ?thesis by simp
    next
      case False
      with \<open>\<not> m < 3\<close> have c: "4 \<le> m" by simp
      with a have b: "(m - 1) mod 3 \<noteq> 0" by simp
      define r where "r = (m - 1) mod 3"
      have "r < 3" unfolding r_def by simp
      with b have r: "r = 1 \<or> r = 2" unfolding r_def by linarith
      have s: "m + 1 - 1 = Suc (m - 1)" using c by simp
      have "(3 - (m + 1 - 1) mod 3) mod 3 < (3 - (m - 1) mod 3) mod 3"
        unfolding s mod_Suc using r unfolding r_def by auto
      with c show ?thesis by simp
    qed
  qed
qed

declare proximo_tributavel.simps [simp del]

definition extra_index :: "string \<Rightarrow> nat \<Rightarrow> erro + nat" where
  "extra_index tipo n =
     (if lower tipo = ''compra'' then Inr (proximo_tributavel (n + 1))
      else if lower tipo = ''aluguel'' then Inr (n + 1)
      else Inl ValueError_tipo_invalido)"

subsection \<open>Cash-flow builder: \<open>calcular_fluxos_com_impostos\<close> (lines 72--207)\<close>

text \<open>The lists the function fills by index.  The dictionary \<open>custos\<close> of lines 192--199
  holds the same six list objects under the keys \<open>PIS\<close>, \<open>COFINS\<close>, \<open>CSSL\<close>,
  \<open>IRPJ\<close>, \<open>Base_IRPJ\<close> and \<open>Base_Adicional_IRPJ\<close>, so the writes of lines 200--205
  are writes to these fields.\<close>

record fluxos =
  fluxo_bruta :: "real list"
  fluxo_liquida :: "real list"
  custos_pis :: "real list"
  custos_cofins :: "real list"
  custos_cssl :: "real list"
  custos_irpj :: "real list"
  bases_irpj :: "real list"
  bases_adicional_irpj :: "real list"

text \<open>Lines 100--125: the pair \<open>(factor_irpj, factor_cssl)\<close> of month \<open>mes\<close>.  The
  comparison with \<open>max(impostos_meses)\<close> is only reached when \<open>mes\<close> is in the list.\<close>

definition fatores :: "parametros \<Rightarrow> nat list \<Rightarrow> nat \<Rightarrow> real \<times> real" where
  "fatores ps imp mes =
     (if lower (tipo_operacao ps) = ''aluguel'' then
        (if mes \<in> set imp then
           (if py_max imp = Inr mes then (0.32, 0.32) else (0.32, 0.32))
         else (0.0, 0.0))
      else
        (if mes \<in> set imp then
           (if mes < num_parcelas ps then (0.32, 0.32) else (0.08, 0.12))
         else (0.0, 0.0)))"

text \<open>Lines 131--134 (and 167--170, 177--180, 284--287, 312--315).\<close>

definition base_adicional_de :: "parametros \<Rightarrow> real \<Rightarrow> real" where
  "base_adicional_de ps base_irpj =
     (if base_irpj \<ge> limite_isencao_irpj ps then base_irpj - limite_isencao_irpj ps else 0)"

text \<open>Lines 127--140: \<open>(custo_cssl, custo_irpj, base_irpj, base_adicional)\<close> of month
  \<open>mes\<close>, read from the gross flows written so far.\<close>

definition tributos_do_mes ::
  "parametros \<Rightarrow> nat list \<Rightarrow> nat \<Rightarrow> real list \<Rightarrow> real \<times> real \<times> real \<times> real" where
  "tributos_do_mes ps imp mes fb =
     (let factor_irpj = fst (fatores ps imp mes);
          factor_cssl = snd (fatores ps imp mes)
      in if mes \<in> set imp then
           (let base_cssl = sum_list (fatia fb (mes - 3) mes) * factor_cssl;
                custo_cssl = - (base_cssl * aliquota_cssl ps);
                base_irpj = sum_list (fatia fb (mes - 3) mes) * factor_irpj;
                base_adicional = base_adicional_de ps base_irpj;
                custo_irpj = - (base_irpj * aliquota_irpj ps
                                + base_adicional * aliquota_adicional_irpj ps)
            in (custo_cssl, custo_irpj, base_irpj, base_adicional))
         else (0.0, 0.0, 0.0, 0.0))"

text \<open>One iteration of the loop of lines 90--147; the state is \<open>pmt_atual\<close> and the
  lists.\<close>

definition passo_parcela ::
  "parametros \<Rightarrow> nat list \<Rightarrow> nat \<Rightarrow> real \<times> fluxos \<Rightarrow> real \<times> fluxos" where
  "passo_parcela ps imp mes s =
     (let pmt_atual = (if mes > 1 \<and> (mes - 1) mod 12 = 0
                       then fst s * (1 + inflacao_anual ps) else fst s);
          f = snd s;
          fb = (fluxo_bruta f)[mes := pmt_atual];
          custo_pis = - (pmt_atual * aliquota_pis ps);
          custo_cofins = - (pmt_atual * aliquota_cofins ps);
          t = tributos_do_mes ps imp mes fb;
          custo_cssl = fst t;
          custo_irpj = fst (snd t);
          base_irpj = fst (snd (snd t));
          base_adicional = snd (snd (snd t))
      in (pmt_atual,
          f\<lparr>fluxo_bruta := fb,
            custos_pis := (custos_pis f)[mes := custo_pis],
            custos_cofins := (custos_cofins f)[mes := custo_cofins],
            custos_cssl := (custos_cssl f)[mes := custo_cssl],
            custos_irpj := (custos_irpj f)[mes := custo_irpj],
            bases_irpj := (bases_irpj f)[mes := base_irpj],
            bases_adicional_irpj := (bases_adicional_irpj f)[mes := base_adicional],
            fluxo_liquida := (fluxo_liquida f)
               [mes := fb ! mes + custo_pis + custo_cofins + custo_cssl + custo_irpj]\<rparr>))"

text \<open>One iteration of the loop of lines 150--158.\<close>

definition zera_mes :: "nat \<Rightarrow> fluxos \<Rightarrow> fluxos" where
  "zera_mes mes f =
     f\<lparr>fluxo_bruta := (fluxo_bruta f)[mes := 0],
       fluxo_liquida := (fluxo_liquida f)[mes := 0],
       custos_pis := (custos_pis f)[mes := 0],
       custos_cofins := (custos_cofins f)[mes := 0],
       custos_cssl := (custos_cssl f)[mes := 0],
       custos_irpj := (custos_irpj f)[mes := 0],
       bases_irpj := (bases_irpj f)[mes := 0],
       bases_adicional_irpj := (bases_adicional_irpj f)[mes := 0]\<rparr>"

text \<open>Lines 160--186: \<open>(custo_cssl_final, custo_irpj_final, base_irpj_final,
  base_adicional_final)\<close>.\<close>

definition fluxo_extra ::
  "parametros \<Rightarrow> nat \<Rightarrow> real list \<Rightarrow> real \<times> real \<times> real \<times> real" where
  "fluxo_extra ps ex fb =
     (if num_parcelas ps \<ge> 3 then
        (if lower (tipo_operacao ps) = ''aluguel'' then
           (let base_cssl_final = sum_list (fatia fb (ex - 3) ex) * 0.32;
                custo_cssl_final = - (base_cssl_final * aliquota_cssl ps);
                base_irpj_final = sum_list (fatia fb (ex - 3) ex) * 0.32;
                base_adicional_final = base_adicional_de ps base_irpj_final;
                custo_irpj_final = - (base_irpj_final * aliquota_irpj ps
                                      + base_adicional_final * aliquota_adicional_irpj ps)
            in (custo_cssl_final, custo_irpj_final, base_irpj_final, base_adicional_final))
         else
           (let base_cssl_final = sum_list (fatia fb (ex - 3) ex) * 0.12;
                custo_cssl_final = - (base_cssl_final * aliquota_cssl ps);
                base_irpj_final = sum_list (fatia fb (ex - 3) ex) * 0.08;
                base_adicional_final = base_adicional_de ps base_irpj_final;
                custo_irpj_final = - (base_irpj_final * aliquota_irpj ps
                                      + base_adicional_final * aliquota_adicional_irpj ps)
            in (custo_cssl_final, custo_irpj_final, base_irpj_final, base_adicional_final)))
      else (0.0, 0.0, 0.0, 0.0))"

text \<open>Lines 73--87: the lists before the first loop.\<close>

definition fluxos_iniciais :: "parametros \<Rightarrow> nat \<Rightarrow> fluxos" where
  "fluxos_iniciais ps ex =
     (let total_fluxos = ex + 1
      in \<lparr>fluxo_bruta = (replicate total_fluxos 0)[0 := - valor_emprestado ps],
          fluxo_liquida = (replicate total_fluxos 0)[0 := - valor_emprestado ps],
          custos_pis = replicate total_fluxos 0,
          custos_cofins = replicate total_fluxos 0,
          custos_cssl = replicate total_fluxos 0,
          custos_irpj = replicate total_fluxos 0,
          bases_irpj = replicate total_fluxos 0,
          bases_adicional_irpj = replicate total_fluxos 0\<rparr>)"

text \<open>Lines 188--205: the writes at the extra index.\<close>

definition grava_extra :: "nat \<Rightarrow> real \<times> real \<times> real \<times> real \<Rightarrow> fluxos \<Rightarrow> fluxos" where
  "grava_extra ex t f =
     (let custo_cssl_final = fst t;
          custo_irpj_final = fst (snd t);
          base_irpj_final = fst (snd (snd t));
          base_adicional_final = snd (snd (snd t))
      in f\<lparr>fluxo_bruta := (fluxo_bruta f)[ex := 0],
           fluxo_liquida := (fluxo_liquida f)[ex := custo_cssl_final + custo_irpj_final],
           custos_pis := (custos_pis f)[ex := 0],
           custos_cofins := (custos_cofins f)[ex := 0],
           custos_cssl := (custos_cssl f)[ex := custo_cssl_final],
           custos_irpj := (custos_irpj f)[ex := custo_irpj_final],
           bases_irpj := (bases_irpj f)[ex := base_irpj_final],
           bases_adicional_irpj := (bases_adicional_irpj f)[ex := base_adicional_final]\<rparr>)"

text \<open>The nested function.  Its free variables \<open>impostos_meses\<close> and \<open>extra_index\<close>
  are the arguments \<open>imp\<close> and \<open>ex\<close>; the other free variables are fields of \<open>ps\<close>.
  The lists have \<open>ex + 1\<close> entries and the source writes at the months
  \<open>1..num_parcelas\<close>, \<open>num_parcelas + 1..ex - 1\<close> and \<open>ex\<close>; in a call of
  \<open>simular_emprestimo\<close> the extra index is above \<open>num_parcelas\<close>, so every write is in
  range and no \<open>IndexError\<close> can occur.\<close>

definition calcular_fluxos_com_impostos ::
  "parametros \<Rightarrow> nat list \<Rightarrow> nat \<Rightarrow> real \<Rightarrow> fluxos" where
  "calcular_fluxos_com_impostos ps imp ex pmt_bruta =
     (let f1 = snd (fold (passo_parcela ps imp) [1..<num_parcelas ps + 1]
                      (pmt_bruta, fluxos_iniciais ps ex));
          f2 = fold zera_mes [num_parcelas ps + 1..<ex] f1
      in grava_extra ex (fluxo_extra ps ex (fluxo_bruta f2)) f2)"

subsection \<open>Objective and root search (lines 65--70 and 209--237)\<close>

definition funcao_goal_seek_impostos ::
  "numerico \<Rightarrow> parametros \<Rightarrow> nat list \<Rightarrow> nat \<Rightarrow> real \<Rightarrow> real" where
  "funcao_goal_seek_impostos lib ps imp ex pmt_bruta =
     (let fluxos_liquidos = fluxo_liquida (calcular_fluxos_com_impostos ps imp ex pmt_bruta)
      in case npf_irr lib fluxos_liquidos of
           None \<Rightarrow> - 1 - tir_desejada ps
         | Some tir_liquida \<Rightarrow> tir_liquida - tir_desejada ps)"

text \<open>\<open>np.linspace(a, b, n)\<close> with the end point included.\<close>

definition linspace :: "real \<Rightarrow> real \<Rightarrow> nat \<Rightarrow> real list" where
  "linspace a b n =
     (if n = 1 then [a]
      else map (\<lambda>i. a + real i * ((b - a) / real (n - 1))) [0..<n])"

text \<open>One iteration of the loop of lines 221--229 and the loop itself.\<close>

definition passo_raiz ::
  "numerico \<Rightarrow> (real \<Rightarrow> real) \<Rightarrow> real list \<Rightarrow> real list \<Rightarrow> nat \<Rightarrow> real list \<Rightarrow> real list" where
  "passo_raiz lib f pmt_grid f_vals i raizes =
     (if f_vals ! i * f_vals ! (i + 1) < 0 then
        (case brentq lib f (pmt_grid ! i) (pmt_grid ! (i + 1)) of
           Some raiz \<Rightarrow> raizes @ [raiz]
         | None \<Rightarrow> raizes)
      else raizes)"

definition busca_raizes ::
  "numerico \<Rightarrow> (real \<Rightarrow> real) \<Rightarrow> real list \<Rightarrow> real list" where
  "busca_raizes lib f pmt_grid =
     (let f_vals = map f pmt_grid
      in fold (passo_raiz lib f pmt_grid f_vals) [0..<length pmt_grid - 1] [])"

text \<open>Lines 216--234: the grid, the brackets and the choice of the largest root.\<close>

definition pmt_otimizada ::
  "numerico \<Rightarrow> (real \<Rightarrow> real) \<Rightarrow> real \<Rightarrow> real \<Rightarrow> nat \<Rightarrow> erro + real" where
  "pmt_otimizada lib f pmt_min pmt_max n_points =
     (let raizes = busca_raizes lib f (linspace pmt_min pmt_max n_points)
      in if raizes \<noteq> [] then py_max raizes else Inl ValueError_nenhuma_solucao)"



subsection \<open>Report table and \<open>simular_emprestimo\<close> (lines 239--327)\<close>

text \<open>The columns of the data frame \<open>df_fluxos\<close>, in the order the source creates them:
  \<open>Mes\<close>, \<open>Fluxo de Caixa Bruta\<close>, \<open>Fluxo de Caixa Liquida\<close>, \<open>PIS\<close>, \<open>COFINS\<close>,
  \<open>Base Tributavel CSSL\<close>, \<open>CSSL\<close>, \<open>Base Tributavel IRPJ\<close>, \<open>Base Adicional IRPJ\<close>,
  \<open>IRPJ\<close>, \<open>IRPJ Adicional\<close>.  The index is the default one, so row label and row
  position coincide.\<close>

record df_fluxos =
  df_Mes :: "nat list"
  df_Bruta :: "real list"
  df_Liquida :: "real list"
  df_PIS :: "real list"
  df_COFINS :: "real list"
  df_Base_CSSL :: "real list"
  df_CSSL :: "real list"
  df_Base_IRPJ :: "real list"
  df_Base_Adicional_IRPJ :: "real list"
  df_IRPJ :: "real list"
  df_IRPJ_Adicional :: "real list"

text \<open>Lines 240--257.\<close>

definition df_inicial :: "parametros \<Rightarrow> nat \<Rightarrow> fluxos \<Rightarrow> df_fluxos" where
  "df_inicial ps ex f =
     (let meses = [0..<ex + 1];
          zeros = replicate (length meses) 0
      in \<lparr>df_Mes = meses,
          df_Bruta = fluxo_bruta f,
          df_Liquida = fluxo_liquida f,
          df_PIS = map (\<lambda>x. if x > 0 then - (x * aliquota_pis ps) else 0) (fluxo_bruta f),
          df_COFINS = map (\<lambda>x. if x > 0 then - (x * aliquota_cofins ps) else 0) (fluxo_bruta f),
          df_Base_CSSL = zeros,
          df_CSSL = zeros,
          df_Base_IRPJ = zeros,
          df_Base_Adicional_IRPJ = zeros,
          df_IRPJ = zeros,
          df_IRPJ_Adicional = zeros\<rparr>)"

text \<open>One iteration of the loop of lines 259--297.  Inside the loop
  \<open>impostos_meses\<close> is not empty, so \<open>max\<close> does not raise there.\<close>

definition passo_relatorio :: "parametros \<Rightarrow> nat list \<Rightarrow> nat \<Rightarrow> df_fluxos \<Rightarrow> df_fluxos" where
  "passo_relatorio ps imp mes df =
     (let soma = sum_list (loc_fatia (df_Bruta df) (mes - 3) (mes - 1));
          base_cssl =
            (if lower (tipo_operacao ps) = ''aluguel'' then
               (if py_max imp = Inr mes then soma * 0.32 else soma * 0.32)
             else
               (if py_max imp = Inr mes then soma * 0.12 else soma * 0.32));
          cssl_valor = - (base_cssl * aliquota_cssl ps);
          base_irpj =
            (if lower (tipo_operacao ps) = ''aluguel'' then
               (if py_max imp = Inr mes then soma * 0.32 else soma * 0.32)
             else
               (if py_max imp = Inr mes then soma * 0.08 else soma * 0.32));
          base_adicional = base_adicional_de ps base_irpj;
          irpj_basico = - (base_irpj * aliquota_irpj ps);
          irpj_adicional = - (base_adicional * aliquota_adicional_irpj ps);
          total_irpj = irpj_basico + irpj_adicional
      in df\<lparr>df_Base_CSSL := (df_Base_CSSL df)[mes := base_cssl],
            df_CSSL := (df_CSSL df)[mes := cssl_valor],
            df_Base_IRPJ := (df_Base_IRPJ df)[mes := base_irpj],
            df_Base_Adicional_IRPJ := (df_Base_Adicional_IRPJ df)[mes := base_adicional],
            df_IRPJ := (df_IRPJ df)[mes := total_irpj],
            df_IRPJ_Adicional := (df_IRPJ_Adicional df)[mes := irpj_adicional]\<rparr>)"

text \<open>The body of the conditional of lines 300--325.\<close>

definition relatorio_extra :: "parametros \<Rightarrow> nat \<Rightarrow> df_fluxos \<Rightarrow> df_fluxos" where
  "relatorio_extra ps ex df =
     (let soma = sum_list (loc_fatia (df_Bruta df) (ex - 3) ex);
          base_cssl_final =
            (if lower (tipo_operacao ps) = ''aluguel'' then soma * 0.32 else soma * 0.12);
          cssl_final = - (base_cssl_final * aliquota_cssl ps);
          base_irpj_final =
            (if lower (tipo_operacao ps) = ''aluguel'' then soma * 0.32 else soma * 0.08);
          base_adicional_final = base_adicional_de ps base_irpj_final;
          irpj_basico_final = - (base_irpj_final * aliquota_irpj ps);
          irpj_adicional_final = - (base_adicional_final * aliquota_adicional_irpj ps);
          total_irpj_final = irpj_basico_final + irpj_adicional_final
      in df\<lparr>df_Base_CSSL := (df_Base_CSSL df)[ex := base_cssl_final],
            df_CSSL := (df_CSSL df)[ex := cssl_final],
            df_Base_IRPJ := (df_Base_IRPJ df)[ex := base_irpj_final],
            df_Base_Adicional_IRPJ := (df_Base_Adicional_IRPJ df)[ex := base_adicional_final],
            df_IRPJ := (df_IRPJ df)[ex := total_irpj_final],
            df_IRPJ_Adicional := (df_IRPJ_Adicional df)[ex := irpj_adicional_final]\<rparr>)"

text \<open>Lines 239--325.  Line 299 evaluates \<open>max(impostos_meses)\<close> outside any guard.\<close>

definition montar_df :: "parametros \<Rightarrow> nat list \<Rightarrow> nat \<Rightarrow> fluxos \<Rightarrow> erro + df_fluxos" where
  "montar_df ps imp ex f =
     (let df = fold (passo_relatorio ps imp) imp (df_inicial ps ex f)
      in case py_max imp of
           Inl e \<Rightarrow> Inl e
         | Inr ultimo \<Rightarrow> Inr (if ex > ultimo then relatorio_extra ps ex df else df))"

text \<open>The whole function.  \<open>pmt_min\<close> and \<open>pmt_max\<close> are \<open>None\<close> when the caller
  leaves them out.  The result is \<open>(pmt_otimizada, fluxo_bruta, fluxo_liquida,
  df_fluxos)\<close>.\<close>

definition simular_emprestimo ::
  "numerico \<Rightarrow> parametros \<Rightarrow> real option \<Rightarrow> real option \<Rightarrow> nat
     \<Rightarrow> erro + (real \<times> real list \<times> real list \<times> df_fluxos)" where
  "simular_emprestimo lib ps pmt_min pmt_max n_points =
     (let imp = impostos_meses (num_parcelas ps)
      in case extra_index (tipo_operacao ps) (num_parcelas ps) of
           Inl e \<Rightarrow> Inl e
         | Inr ex \<Rightarrow>
            (let pmt_teorica =
                   \<bar>npf_pmt lib (tir_desejada ps) (num_parcelas ps) (valor_emprestado ps)\<bar>;
                 pmin = (case pmt_min of None \<Rightarrow> pmt_teorica | Some v \<Rightarrow> v);
                 pmax = (case pmt_max of None \<Rightarrow> pmt_teorica * 2 | Some v \<Rightarrow> v)
             in case pmt_otimizada lib (funcao_goal_seek_impostos lib ps imp ex)
                       pmin pmax n_points of
                  Inl e \<Rightarrow> Inl e
                | Inr pmt \<Rightarrow>
                   (let f = calcular_fluxos_com_impostos ps imp ex pmt
                    in case montar_df ps imp ex f of
                         Inl e \<Rightarrow> Inl e
                       | Inr df \<Rightarrow> Inr (pmt, fluxo_bruta f, fluxo_liquida f, df))))"

subsection \<open>Investor recovery in \<open>app\<close> (lines 581--582 and 645--708)\<close>

text \<open>A cell of the displayed table is a number or, after \<open>formatar_brasileiro\<close>, a text.
  \<open>Str v\<close> stands for the text that \<open>"{:,.2f}"\<close> prints for \<open>v\<close> (with the separators
  swapped), which line 659 parses back to \<open>v\<close>.\<close>

datatype celula = Num real | Str real

text \<open>Lines 10--16: a number is rounded up to two decimals and printed, anything else is
  returned as it is.  The product \<open>valor * 100\<close> is the exact one here; in the source it
  is a float product, which can lie just above an integer, and \<open>math.ceil\<close> then gives one
  cent more (0.07 is printed as \<open>0,08\<close>).\<close>

fun formatar_brasileiro :: "celula \<Rightarrow> celula" where
  "formatar_brasileiro (Num valor) = Str (of_int \<lceil>valor * 100\<rceil> / 100)"
| "formatar_brasileiro (Str v) = Str v"

text \<open>The comparison \<open>!= 0\<close> of line 651, cell by cell: a text is never equal to the
  integer 0.\<close>

fun difere_de_zero :: "celula \<Rightarrow> bool" where
  "difere_de_zero (Num v) = (v \<noteq> 0)"
| "difere_de_zero (Str v) = True"

text \<open>Line 659 on a text cell.\<close>

fun para_float :: "celula \<Rightarrow> real" where
  "para_float (Num v) = v"
| "para_float (Str v) = v"

text \<open>Lines 581--582 on the gross-flow column, then lines 651--671: the rows
  \<open>(Mes, Fluxo de Caixa Bruta)\<close> of \<open>df_parcelas_recuperacao\<close>.\<close>

definition linhas_recuperacao :: "df_fluxos \<Rightarrow> (nat \<times> real) list" where
  "linhas_recuperacao df =
     (let texto = map (\<lambda>x. formatar_brasileiro (Num x)) (df_Bruta df);
          filtradas = filter (\<lambda>l. difere_de_zero (snd l)) (zip (df_Mes df) texto);
          numericas = map (\<lambda>l. (fst l, para_float (snd l))) filtradas;
          ordenadas = sort_key fst numericas
      in map (\<lambda>l. (fst l, if fst l = 0 then 0 else snd l)) ordenadas)"

text \<open>Line 675.\<close>

definition parcela :: "(nat \<times> real) list \<Rightarrow> real list" where
  "parcela linhas = map (\<lambda>l. - snd l) linhas"

text \<open>\<open>df["Mes"].max()\<close>; with no row there is no row to compare it with.\<close>

definition max_mes :: "(nat \<times> real) list \<Rightarrow> nat" where
  "max_mes linhas = fold max (map fst linhas) 0"

text \<open>Lines 680--685: the column \<open>Recuperacao IR\<close>.  \<open>tipo\<close> is the value the
  select box of line 333 stored, compared as it is.  Where \<open>max_mes - 3\<close> is negative in
  the source every month passes the test, as every month passes \<open>\<ge> 0\<close> here.\<close>

definition recuperacao_ir :: "string \<Rightarrow> real \<Rightarrow> (nat \<times> real) list \<Rightarrow> real list" where
  "recuperacao_ir tipo recuperacao_irpj linhas =
     (let rec = map (\<lambda>p. - p * recuperacao_irpj) (parcela linhas)
      in if tipo = ''compra'' then
           map (\<lambda>(l, r). if fst l \<ge> max_mes linhas - 3 then 0 else r) (zip linhas rec)
         else rec)"

text \<open>Lines 692--703: \<open>soma_ajustada\<close>, the value written to month 0.\<close>

definition soma_ajustada :: "string \<Rightarrow> real \<Rightarrow> real \<Rightarrow> (nat \<times> real) list \<Rightarrow> real" where
  "soma_ajustada tipo recuperacao_irpj cdi linhas =
     fold (\<lambda>(i, valor) soma.
             (let fator = (if tipo = ''compra'' \<and> i \<ge> max_mes linhas - 3 then 1.0
                           else 1 - recuperacao_irpj)
              in soma + fator * (valor / (1 + cdi) ^ i)))
          (map (\<lambda>(l, p). (fst l, - p))
               (filter (\<lambda>(l, p). fst l \<noteq> 0) (zip linhas (parcela linhas))))
          0.0"

subsection \<open>Concrete inputs used to instantiate the theorems\<close>

text \<open>A stand-in for the numerical library on one-installment schedules.  For a series
  \<open>[-a, b, 0]\<close> with \<open>a > 0\<close> and \<open>b > 0\<close> the internal rate of return is \<open>b / a - 1\<close>;
  \<open>irr_um_periodo\<close> returns it, and \<open>None\<close> (\<open>nan\<close>) on every other series.  On such
  schedules the objective is affine in the payment, so one secant step between the ends of
  a sign-changing bracket is its exact root; \<open>secante\<close> returns it.\<close>

definition irr_um_periodo :: "real list \<Rightarrow> real option" where
  "irr_um_periodo fl =
     (case fl of
        [a, b, c] \<Rightarrow> (if a < 0 \<and> b > 0 \<and> c = 0 then Some (b / (- a) - 1) else None)
      | _ \<Rightarrow> None)"

definition secante :: "(real \<Rightarrow> real) \<Rightarrow> real \<Rightarrow> real \<Rightarrow> real option" where
  "secante f a b =
     (if f a * f b < 0 then Some (a - f a * (b - a) / (f b - f a)) else None)"

definition lib_exemplo :: numerico where
  "lib_exemplo =
     \<lparr>npf_pmt = (\<lambda>rate nper pv. - (pv * (1 + rate))),
      npf_irr = irr_um_periodo,
      brentq = secante\<rparr>"

text \<open>The rates are those of the call in \<open>app\<close> (lines 391--397) with the default inputs
  of lines 341--344.\<close>

definition ps_exemplo :: "string \<Rightarrow> nat \<Rightarrow> parametros" where
  "ps_exemplo tipo n =
     \<lparr>valor_emprestado = 1000, num_parcelas = n, tir_desejada = 0.024,
      inflacao_anual = 0.04, aliquota_pis = 0.0065, aliquota_cofins = 0.03,
      tipo_operacao = tipo, aliquota_irpj = 0.15, aliquota_cssl = 0.09,
      limite_isencao_irpj = 60000, aliquota_adicional_irpj = 0.10\<rparr>"

subsection \<open>Loop invariants of the builder\<close>

text \<open>The state of the loop of lines 90--147 after its first \<open>k\<close> iterations.\<close>

definition laco :: "parametros \<Rightarrow> nat list \<Rightarrow> nat \<Rightarrow> real \<Rightarrow> nat \<Rightarrow> real \<times> fluxos" where
  "laco ps imp ex pmt_bruta k =
     fold (passo_parcela ps imp) [1..<k + 1] (pmt_bruta, fluxos_iniciais ps ex)"

text \<open>All eight lists have \<open>t\<close> entries.\<close>

definition comprimentos :: "nat \<Rightarrow> fluxos \<Rightarrow> bool" where
  "comprimentos t f =
     (length (fluxo_bruta f) = t \<and> length (fluxo_liquida f) = t \<and>
      length (custos_pis f) = t \<and> length (custos_cofins f) = t \<and>
      length (custos_cssl f) = t \<and> length (custos_irpj f) = t \<and>
      length (bases_irpj f) = t \<and> length (bases_adicional_irpj f) = t)"

text \<open>The four income-tax entries of month \<open>m\<close>, in the order in which
  \<open>tributos_do_mes\<close> returns them.\<close>

definition campos :: "fluxos \<Rightarrow> nat \<Rightarrow> real \<times> real \<times> real \<times> real" where
  "campos f m =
     (custos_cssl f ! m, custos_irpj f ! m, bases_irpj f ! m, bases_adicional_irpj f ! m)"

text \<open>Months \<open>1..k\<close> carry the taxes computed from the gross flows; month 0 and the months
  after \<open>k\<close> and below \<open>u\<close> carry zeros.\<close>

definition campos_ok :: "parametros \<Rightarrow> nat list \<Rightarrow> nat \<Rightarrow> nat \<Rightarrow> fluxos \<Rightarrow> bool" where
  "campos_ok ps imp k u f =
     (\<forall>m. (1 \<le> m \<and> m \<le> k \<longrightarrow> campos f m = tributos_do_mes ps imp m (fluxo_bruta f)) \<and>
          ((m = 0 \<or> k < m) \<and> m < u \<longrightarrow> campos f m = (0, 0, 0, 0)))"

text \<open>Signs: gross flows from month 1 on are not negative, costs are not positive, bases
  are not negative.\<close>

definition sinais_ok :: "fluxos \<Rightarrow> bool" where
  "sinais_ok f =
     ((\<forall>x\<in>set (drop 1 (fluxo_bruta f)). 0 \<le> x) \<and>
      (\<forall>x\<in>set (custos_pis f). x \<le> 0) \<and>
      (\<forall>x\<in>set (custos_cofins f). x \<le> 0) \<and>
      (\<forall>x\<in>set (custos_cssl f). x \<le> 0) \<and>
      (\<forall>x\<in>set (custos_irpj f). x \<le> 0) \<and>
      (\<forall>x\<in>set (bases_irpj f). 0 \<le> x) \<and>
      (\<forall>x\<in>set (bases_adicional_irpj f). 0 \<le> x))"

text \<open>The rates, the inflation and the exemption threshold are not negative.\<close>

definition aliquotas_ok :: "parametros \<Rightarrow> bool" where
  "aliquotas_ok ps =
     (0 \<le> aliquota_pis ps \<and> 0 \<le> aliquota_cofins ps \<and> 0 \<le> aliquota_irpj ps \<and>
      0 \<le> aliquota_cssl ps \<and> 0 \<le> aliquota_adicional_irpj ps \<and>
      0 \<le> inflacao_anual ps \<and> 0 \<le> limite_isencao_irpj ps)"

text \<open>Signs of a tuple \<open>(custo_cssl, custo_irpj, base_irpj, base_adicional)\<close>.\<close>

definition sinais4 :: "real \<times> real \<times> real \<times> real \<Rightarrow> bool" where
  "sinais4 t =
     (fst t \<le> 0 \<and> fst (snd t) \<le> 0 \<and> 0 \<le> fst (snd (snd t)) \<and> 0 \<le> snd (snd (snd t)))"

section \<open>Properties\<close>

subsection \<open>Operation type strings\<close>

lemma lower_compra [simp]: "lower ''compra'' = ''compra''" "lower ''Compra'' = ''compra''"
  by (simp_all add: lower_def lower_char_def)

lemma lower_aluguel [simp]: "lower ''aluguel'' = ''aluguel''" "lower ''Aluguel'' = ''aluguel''"
  by (simp_all add: lower_def lower_char_def)

subsection \<open>Tax calendar\<close>

lemma impostos_meses_Suc:
  "impostos_meses (Suc n) =
     impostos_meses n @ (if 3 \<le> n \<and> n mod 3 = 0 then [Suc n] else [])"
  by (simp add: impostos_meses_def)

lemma div3_step:
  fixes n :: nat
  assumes "3 \<le> n" "n mod 3 = 0"
  shows "n div 3 = Suc ((n - 1) div 3)"
proof -
  from assms have "3 dvd n" by (simp add: dvd_eq_mod_eq_0)
  then obtain q where q: "n = 3 * q" by (rule dvdE)
  with assms have "q \<noteq> 0" by auto
  then obtain r where r: "q = Suc r" by (cases q) auto
  have "n - 1 = 3 * r + 2" using q r by simp
  then have "(n - 1) div 3 = r" by simp
  moreover have "n div 3 = q" using q by simp
  ultimately show ?thesis using r by simp
qed

lemma div3_stay:
  fixes n :: nat
  assumes "n mod 3 \<noteq> 0"
  shows "n div 3 = (n - 1) div 3"
proof -
  define q where "q = n div 3"
  define r where "r = n mod 3"
  have n: "n = 3 * q + r" unfolding q_def r_def by simp
  have "r < 3" unfolding r_def by simp
  moreover from assms have "r \<noteq> 0" unfolding r_def by simp
  ultimately obtain s where s: "r = Suc s" "s < 2" by (cases r) auto
  have "n - 1 = 3 * q + s" using n s by simp
  then have "(n - 1) div 3 = q" using s by simp
  then show ?thesis unfolding q_def by simp
qed

lemma impostos_meses_map:
  "impostos_meses n = map (\<lambda>i. 4 + 3 * i) [0..<(n - 1) div 3]"
proof (induction n)
  case 0
  show ?case by (simp add: impostos_meses_def)
next
  case (Suc n)
  show ?case
  proof (cases "3 \<le> n \<and> n mod 3 = 0")
    case True
    then have d: "n div 3 = Suc ((n - 1) div 3)" by (simp add: div3_step)
    from True have "3 dvd n" by (simp add: dvd_eq_mod_eq_0)
    then obtain q where q: "n = 3 * q" by (rule dvdE)
    have e: "4 + 3 * ((n - 1) div 3) = Suc n" using d q by simp
    show ?thesis using True Suc d e by (simp add: impostos_meses_Suc)
  next
    case False
    show ?thesis
    proof (cases "n mod 3 = 0")
      case True
      with False have "n < 3" by simp
      with True have "n = 0" by auto
      then show ?thesis by (simp add: impostos_meses_def)
    next
      case nz: False
      then have "n div 3 = (n - 1) div 3" by (rule div3_stay)
      then show ?thesis using nz Suc by (simp add: impostos_meses_Suc)
    qed
  qed
qed

lemma set_impostos_meses:
  "set (impostos_meses n) = {p. 4 \<le> p \<and> p \<le> n \<and> (p - 1) mod 3 = 0}"
  by (auto simp: impostos_meses_def)

lemma impostos_meses_ge4: "mes \<in> set (impostos_meses n) \<Longrightarrow> 4 \<le> mes \<and> mes \<le> n"
  by (simp add: set_impostos_meses)

lemma sorted_impostos_meses: "sorted_wrt (<) (impostos_meses n)"
  unfolding impostos_meses_def by (rule sorted_wrt_filter) (rule sorted_wrt_upt)

text \<open>
  \<^bold>\<open>C9.\<close> For every \<open>num_parcelas\<close>, the recognition months computed at line 50 are
  exactly the months \<open>p\<close> with \<open>4 \<le> p \<le> num_parcelas\<close> and \<open>(p - 1) mod 3 = 0\<close>; listed
  in order they are \<open>4, 7, 10, \<dots>\<close>, that is strictly increasing and spaced exactly 3
  apart starting at 4.
\<close>

theorem C9_impostos_meses:
  "set (impostos_meses n) = {p. 4 \<le> p \<and> p \<le> n \<and> (p - 1) mod 3 = 0} \<and>
   impostos_meses n = map (\<lambda>i. 4 + 3 * i) [0..<(n - 1) div 3] \<and>
   sorted_wrt (<) (impostos_meses n)"
  using set_impostos_meses [of n] impostos_meses_map [of n] sorted_impostos_meses [of n]
  by blast

lemma proximo_tributavel_ok:
  "m \<le> proximo_tributavel m \<and> 4 \<le> proximo_tributavel m
     \<and> (proximo_tributavel m - 1) mod 3 = 0"
proof (induction m rule: proximo_tributavel.induct)
  case (1 m)
  show ?case
  proof (cases "4 \<le> m \<and> (m - 1) mod 3 = 0")
    case True
    then show ?thesis by (simp add: proximo_tributavel.simps [of m])
  next
    case False
    with 1 have "m + 1 \<le> proximo_tributavel (m + 1) \<and> 4 \<le> proximo_tributavel (m + 1)
        \<and> (proximo_tributavel (m + 1) - 1) mod 3 = 0" by simp
    moreover from False have "proximo_tributavel m = proximo_tributavel (m + 1)"
      by (subst proximo_tributavel.simps) auto
    ultimately show ?thesis by simp
  qed
qed

lemma proximo_tributavel_least:
  "m \<le> k \<Longrightarrow> 4 \<le> k \<Longrightarrow> (k - 1) mod 3 = 0 \<Longrightarrow> proximo_tributavel m \<le> k"
proof (induction m rule: proximo_tributavel.induct)
  case (1 m)
  show ?case
  proof (cases "4 \<le> m \<and> (m - 1) mod 3 = 0")
    case True
    then show ?thesis using "1.prems" by (simp add: proximo_tributavel.simps [of m])
  next
    case False
    with "1.prems" have "m \<noteq> k" by auto
    with "1.prems" have "m + 1 \<le> k" by simp
    with 1 False have "proximo_tributavel (m + 1) \<le> k" by simp
    moreover from False have "proximo_tributavel m = proximo_tributavel (m + 1)"
      by (subst proximo_tributavel.simps) auto
    ultimately show ?thesis by simp
  qed
qed

lemma proximo_tributavel_Least:
  "proximo_tributavel (n + 1) = (LEAST m. n < m \<and> 4 \<le> m \<and> (m - 1) mod 3 = 0)"
proof (rule Least_equality [symmetric])
  show "n < proximo_tributavel (n + 1) \<and> 4 \<le> proximo_tributavel (n + 1)
      \<and> (proximo_tributavel (n + 1) - 1) mod 3 = 0"
    using proximo_tributavel_ok [of "n + 1"] by simp
next
  fix y assume "n < y \<and> 4 \<le> y \<and> (y - 1) mod 3 = 0"
  then show "proximo_tributavel (n + 1) \<le> y"
    using proximo_tributavel_least [of "n + 1" y] by simp
qed

lemma proximo_29: "proximo_tributavel 29 = 31"
  by code_simp

lemma extra_index_gt:
  "extra_index tipo n = Inr ex \<Longrightarrow> n < ex"
  using proximo_tributavel_ok [of "n + 1"]
  by (auto simp: extra_index_def split: if_splits)

text \<open>
  \<^bold>\<open>C5.\<close> For every \<open>num_parcelas = n\<close>: under Rental (\<open>aluguel\<close>) the extra index is
  \<open>n + 1\<close>; under Purchase (\<open>compra\<close>) it is the smallest \<open>m > n\<close> with \<open>m \<ge> 4\<close> and
  \<open>(m - 1) mod 3 = 0\<close>; for Purchase with \<open>n = 28\<close> it is 31.
\<close>

theorem C5_extra_index:
  "(lower tipo = ''aluguel'' \<longrightarrow> extra_index tipo n = Inr (n + 1)) \<and>
   (lower tipo = ''compra'' \<longrightarrow>
      extra_index tipo n = Inr (LEAST m. n < m \<and> 4 \<le> m \<and> (m - 1) mod 3 = 0)) \<and>
   extra_index ''compra'' 28 = Inr 31"
proof -
  have "lower tipo = ''compra'' \<longrightarrow>
      extra_index tipo n = Inr (LEAST m. n < m \<and> 4 \<le> m \<and> (m - 1) mod 3 = 0)"
    unfolding extra_index_def proximo_tributavel_Least by simp
  moreover have "lower tipo = ''aluguel'' \<longrightarrow> extra_index tipo n = Inr (n + 1)"
    unfolding extra_index_def by simp
  moreover have "extra_index ''compra'' 28 = Inr 31"
    unfolding extra_index_def using proximo_29 by simp
  ultimately show ?thesis by blast
qed

theorem C5_extra_index_witness:
  "lower ''Aluguel'' = ''aluguel'' \<and> extra_index ''Aluguel'' 36 = Inr 37 \<and>
   lower ''Compra'' = ''compra'' \<and>
   extra_index ''Compra'' 28 = Inr (LEAST m. 28 < m \<and> 4 \<le> m \<and> (m - 1) mod 3 = 0)"
  using C5_extra_index [of "''Aluguel''" 36] C5_extra_index [of "''Compra''" 28]
  by simp

text \<open>
  \<^bold>\<open>C6\<close> as stated (the extra index is a recognition-eligible month for both operation
  types) fails for Rental: with \<open>num_parcelas = 4\<close> the extra index is 5, and
  \<open>(5 - 1) mod 3 = 1\<close>.
\<close>

theorem C6_counterexample:
  "extra_index ''aluguel'' 4 = Inr 5 \<and> (5 - 1) mod 3 \<noteq> (0::nat)"
  by (simp add: extra_index_def)

text \<open>
  \<^bold>\<open>C6, amended.\<close> For both operation types the extra index is greater than
  \<open>num_parcelas = n\<close>, so it is never an ordinary installment month.  Under Purchase it is
  a recognition-eligible month (\<open>\<ge> 4\<close> and \<open>(e - 1) mod 3 = 0\<close>).  Under Rental it is
  \<open>n + 1\<close>, which is recognition-eligible exactly when \<open>n \<ge> 3\<close> and \<open>n\<close> is a multiple
  of 3.
\<close>

theorem C6_extra_index_amended:
  assumes "lower tipo = ''compra'' \<or> lower tipo = ''aluguel''"
  shows "case extra_index tipo n of
           Inl e \<Rightarrow> False
         | Inr ex \<Rightarrow>
             n < ex \<and>
             (lower tipo = ''compra'' \<longrightarrow> 4 \<le> ex \<and> (ex - 1) mod 3 = 0) \<and>
             (lower tipo = ''aluguel'' \<longrightarrow>
                ex = n + 1 \<and> ((4 \<le> ex \<and> (ex - 1) mod 3 = 0) = (3 \<le> n \<and> n mod 3 = 0)))"
proof (cases "lower tipo = ''compra''")
  case True
  then show ?thesis
    using proximo_tributavel_ok [of "n + 1"] by (simp add: extra_index_def)
next
  case False
  with assms have "lower tipo = ''aluguel''" by simp
  then show ?thesis by (auto simp: extra_index_def)
qed

theorem C6_extra_index_amended_witness:
  "lower ''Compra'' = ''compra'' \<and> extra_index ''Compra'' 28 = Inr 31 \<and>
   lower ''Aluguel'' = ''aluguel'' \<and> extra_index ''Aluguel'' 36 = Inr 37"
proof -
  have c: "extra_index ''Compra'' 28 = Inr 31"
    unfolding extra_index_def using proximo_29 by simp
  have a: "extra_index ''Aluguel'' 36 = Inr 37"
    unfolding extra_index_def by simp
  from C6_extra_index_amended [of "''Compra''" 28] C6_extra_index_amended [of "''Aluguel''" 36]
  show ?thesis using a c by simp
qed

subsection \<open>Evaluation on concrete inputs\<close>

lemma replicate_numeral: "replicate (numeral k) x = x # replicate (pred_numeral k) x"
  by (simp add: numeral_eq_Suc)

lemma list_update_Cons_numeral: "(x # xs)[numeral k := y] = x # xs[pred_numeral k := y]"
  by (simp add: numeral_eq_Suc)

lemmas avalia_fluxos =
  calcular_fluxos_com_impostos_def fluxos_iniciais_def passo_parcela_def
  tributos_do_mes_def fatores_def zera_mes_def grava_extra_def fluxo_extra_def
  base_adicional_de_def fatia_def Let_def replicate_numeral list_update_Cons_numeral

lemma lib_exemplo_sel [simp]:
  "brentq lib_exemplo = secante" "npf_irr lib_exemplo = irr_um_periodo"
  by (simp_all add: lib_exemplo_def)

lemma linspace_2: "linspace a b 2 = [a, b]"
  by (simp add: linspace_def numeral_2_eq_2)

lemma busca_raizes_2:
  "busca_raizes lib f [a, b] =
     (if f a * f b < 0
      then (case brentq lib f a b of Some r \<Rightarrow> [r] | None \<Rightarrow> [])
      else [])"
  by (simp add: busca_raizes_def passo_raiz_def split: option.splits)

text \<open>One Rental installment: no recognition month, extra index 2.\<close>

lemma impostos_meses_1: "impostos_meses 1 = []"
  by (simp add: impostos_meses_def)

lemma extra_index_aluguel_1: "extra_index ''Aluguel'' 1 = Inr 2"
  by (simp add: extra_index_def)

lemma fluxos_um_periodo:
  "calcular_fluxos_com_impostos (ps_exemplo ''Aluguel'' 1) [] 2 p =
     \<lparr>fluxo_bruta = [- 1000, p, 0],
      fluxo_liquida = [- 1000, p - p * 0.0065 - p * 0.03, 0],
      custos_pis = [0, - (p * 0.0065), 0],
      custos_cofins = [0, - (p * 0.03), 0],
      custos_cssl = [0, 0, 0],
      custos_irpj = [0, 0, 0],
      bases_irpj = [0, 0, 0],
      bases_adicional_irpj = [0, 0, 0]\<rparr>"
  by (simp add: avalia_fluxos ps_exemplo_def)

lemma irr_um_periodo_1000:
  "npf_irr lib_exemplo
     (fluxo_liquida (calcular_fluxos_com_impostos (ps_exemplo ''Aluguel'' 1) [] 2 1000))
   = Some (- 0.0365)"
  unfolding fluxos_um_periodo by (simp add: irr_um_periodo_def)

lemma irr_um_periodo_0:
  "npf_irr lib_exemplo
     (fluxo_liquida (calcular_fluxos_com_impostos (ps_exemplo ''Aluguel'' 1) [] 2 0))
   = None"
  unfolding fluxos_um_periodo by (simp add: irr_um_periodo_def)

lemma objetivo_um_periodo:
  "funcao_goal_seek_impostos lib (ps_exemplo ''Aluguel'' 1) [] 2 p =
     (case npf_irr lib [- 1000, p - p * 0.0065 - p * 0.03, 0] of
        None \<Rightarrow> - 1 - 0.024
      | Some t \<Rightarrow> t - 0.024)"
  unfolding funcao_goal_seek_impostos_def Let_def fluxos_um_periodo
  by (simp add: ps_exemplo_def split: option.splits)

lemma objetivo_1000:
  "funcao_goal_seek_impostos lib_exemplo (ps_exemplo ''Aluguel'' 1) [] 2 1000 = - 0.0605"
  unfolding objetivo_um_periodo by (simp add: irr_um_periodo_def)

lemma objetivo_1100:
  "funcao_goal_seek_impostos lib_exemplo (ps_exemplo ''Aluguel'' 1) [] 2 1100 = 0.03585"
  unfolding objetivo_um_periodo by (simp add: irr_um_periodo_def)

lemma pmt_otimizada_um_periodo:
  "pmt_otimizada lib_exemplo
     (funcao_goal_seek_impostos lib_exemplo (ps_exemplo ''Aluguel'' 1) [] 2) 1000 1100 2
   = Inr (2048000 / 1927)"
  unfolding pmt_otimizada_def Let_def linspace_2 busca_raizes_2 lib_exemplo_sel secante_def
    objetivo_1000 objetivo_1100
  by simp

lemma ps_exemplo_sel:
  "num_parcelas (ps_exemplo tipo n) = n" "tipo_operacao (ps_exemplo tipo n) = tipo"
  by (simp_all add: ps_exemplo_def)

lemma aliquotas_exemplo: "aliquotas_ok (ps_exemplo tipo n)"
  by (simp add: aliquotas_ok_def ps_exemplo_def)

lemma impostos_meses_4: "impostos_meses 4 = [4]"
  by (simp add: impostos_meses_def)

lemma impostos_meses_5: "impostos_meses 5 = [4]"
  by (simp add: impostos_meses_def)

lemma impostos_meses_6: "impostos_meses 6 = [4]"
  by (simp add: impostos_meses_def)

lemma extra_index_compra_4: "extra_index ''Compra'' 4 = Inr 7"
proof -
  have "proximo_tributavel (4 + 1) = 7" by code_simp
  then show ?thesis by (simp add: extra_index_def)
qed

lemma extra_index_compra_5: "extra_index ''Compra'' 5 = Inr 7"
proof -
  have "proximo_tributavel (5 + 1) = 7" by code_simp
  then show ?thesis by (simp add: extra_index_def)
qed

lemma extra_index_aluguel_6: "extra_index ''Aluguel'' 6 = Inr 7"
  by (simp add: extra_index_def)

subsection \<open>Cash-flow builder\<close>

lemma fold_inv:
  assumes "P s" and "\<And>x s. x \<in> set xs \<Longrightarrow> P s \<Longrightarrow> P (f x s)"
  shows "P (fold f xs s)"
  using assms by (induction xs arbitrary: s) auto

lemma fatia_update_fora: "b \<le> j \<Longrightarrow> fatia (xs[j := v]) a b = fatia xs a b"
proof (cases "a \<le> j")
  case True
  assume "b \<le> j"
  then have "b - a \<le> j - a" by simp
  with True show ?thesis
    by (simp add: fatia_def drop_update_swap take_update_cancel)
next
  case False
  assume "b \<le> j"
  with False have "b - a = 0" by simp
  then show ?thesis by (simp add: fatia_def)
qed

lemma tributos_update_fora:
  "mes \<le> j \<Longrightarrow> tributos_do_mes ps imp mes (fb[j := v]) = tributos_do_mes ps imp mes fb"
  by (simp add: tributos_do_mes_def fatia_update_fora)

lemma laco_0: "laco ps imp ex pmt 0 = (pmt, fluxos_iniciais ps ex)"
  by (simp add: laco_def)

lemma laco_Suc: "laco ps imp ex pmt (Suc k) = passo_parcela ps imp (Suc k) (laco ps imp ex pmt k)"
  by (simp add: laco_def)

lemma comprimentos_iniciais: "comprimentos (Suc ex) (fluxos_iniciais ps ex)"
  by (simp add: comprimentos_def fluxos_iniciais_def)

lemma comprimentos_passo:
  "comprimentos t (snd s) \<Longrightarrow> comprimentos t (snd (passo_parcela ps imp mes s))"
  by (simp add: comprimentos_def passo_parcela_def Let_def)

lemma comprimentos_zera: "comprimentos t f \<Longrightarrow> comprimentos t (zera_mes mes f)"
  by (simp add: comprimentos_def zera_mes_def)

lemma comprimentos_grava: "comprimentos t f \<Longrightarrow> comprimentos t (grava_extra ex v f)"
  by (simp add: comprimentos_def grava_extra_def Let_def)

lemma comprimentos_laco: "comprimentos (Suc ex) (snd (laco ps imp ex pmt k))"
  by (induction k) (simp_all add: laco_0 laco_Suc comprimentos_iniciais comprimentos_passo)


lemma bruta_passo:
  "fluxo_bruta (snd (passo_parcela ps imp mes s)) =
     (fluxo_bruta (snd s))[mes := fst (passo_parcela ps imp mes s)]"
  by (simp add: passo_parcela_def Let_def)

lemma campos_passo_nth:
  assumes "comprimentos t (snd s)" and "mes < t"
  shows "campos (snd (passo_parcela ps imp mes s)) m =
           (if m = mes
            then tributos_do_mes ps imp mes (fluxo_bruta (snd (passo_parcela ps imp mes s)))
            else campos (snd s) m)"
  using assms
  by (simp add: campos_def passo_parcela_def Let_def comprimentos_def)

lemma campos_zera_nth:
  assumes "comprimentos t f" and "mes < t"
  shows "campos (zera_mes mes f) m = (if m = mes then (0, 0, 0, 0) else campos f m)"
  using assms by (simp add: campos_def zera_mes_def comprimentos_def)

lemma bruta_zera: "fluxo_bruta (zera_mes mes f) = (fluxo_bruta f)[mes := 0]"
  by (simp add: zera_mes_def)

lemma campos_grava_nth:
  assumes "comprimentos t f" and "ex < t"
  shows "campos (grava_extra ex v f) m = (if m = ex then v else campos f m)"
  using assms by (simp add: campos_def grava_extra_def comprimentos_def Let_def)

lemma bruta_grava: "fluxo_bruta (grava_extra ex v f) = (fluxo_bruta f)[ex := 0]"
  by (simp add: grava_extra_def Let_def)

lemma campos_iniciais: "m < Suc ex \<Longrightarrow> campos (fluxos_iniciais ps ex) m = (0, 0, 0, 0)"
  by (simp add: campos_def fluxos_iniciais_def del: replicate.simps)

lemma campos_ok_passo:
  assumes ok: "campos_ok ps imp k u (snd s)"
    and len: "comprimentos t (snd s)" and kt: "Suc k < t"
  shows "campos_ok ps imp (Suc k) u (snd (passo_parcela ps imp (Suc k) s))"
  unfolding campos_ok_def
proof (intro allI conjI impI)
  fix m
  assume m: "1 \<le> m \<and> m \<le> Suc k"
  show "campos (snd (passo_parcela ps imp (Suc k) s)) m =
        tributos_do_mes ps imp m (fluxo_bruta (snd (passo_parcela ps imp (Suc k) s)))"
  proof (cases "m = Suc k")
    case True
    then show ?thesis using campos_passo_nth [OF len kt] by simp
  next
    case False
    with m have mk: "1 \<le> m \<and> m \<le> k" by simp
    with ok have "campos (snd s) m = tributos_do_mes ps imp m (fluxo_bruta (snd s))"
      unfolding campos_ok_def by blast
    moreover from mk have "m \<le> Suc k" by simp
    then have "tributos_do_mes ps imp m (fluxo_bruta (snd (passo_parcela ps imp (Suc k) s)))
        = tributos_do_mes ps imp m (fluxo_bruta (snd s))"
      unfolding bruta_passo by (rule tributos_update_fora)
    ultimately show ?thesis using False campos_passo_nth [OF len kt] by simp
  qed
next
  fix m
  assume m: "(m = 0 \<or> Suc k < m) \<and> m < u"
  then have "m \<noteq> Suc k" by auto
  moreover from m ok have "campos (snd s) m = (0, 0, 0, 0)"
    unfolding campos_ok_def by auto
  ultimately show "campos (snd (passo_parcela ps imp (Suc k) s)) m = (0, 0, 0, 0)"
    using campos_passo_nth [OF len kt] by simp
qed

lemma campos_ok_laco:
  "k \<le> ex \<Longrightarrow> campos_ok ps imp k (Suc ex) (snd (laco ps imp ex pmt k))"
proof (induction k)
  case 0
  show ?case by (simp add: campos_ok_def laco_0 campos_iniciais)
next
  case (Suc k)
  then have "campos_ok ps imp k (Suc ex) (snd (laco ps imp ex pmt k))" by simp
  moreover have "comprimentos (Suc ex) (snd (laco ps imp ex pmt k))"
    by (rule comprimentos_laco)
  moreover from Suc.prems have "Suc k < Suc ex" by simp
  ultimately show ?case unfolding laco_Suc by (rule campos_ok_passo)
qed

lemma campos_ok_zera:
  assumes ok: "campos_ok ps imp n u f" and len: "comprimentos t f"
    and j: "n < j" "j < t"
  shows "campos_ok ps imp n u (zera_mes j f)"
  unfolding campos_ok_def
proof (intro allI conjI impI)
  fix m
  assume m: "1 \<le> m \<and> m \<le> n"
  with j have "m \<noteq> j" "m \<le> j" by simp_all
  then have "tributos_do_mes ps imp m (fluxo_bruta (zera_mes j f))
      = tributos_do_mes ps imp m (fluxo_bruta f)"
    unfolding bruta_zera by (simp add: tributos_update_fora)
  moreover from m ok have "campos f m = tributos_do_mes ps imp m (fluxo_bruta f)"
    unfolding campos_ok_def by blast
  ultimately show "campos (zera_mes j f) m
      = tributos_do_mes ps imp m (fluxo_bruta (zera_mes j f))"
    using \<open>m \<noteq> j\<close> campos_zera_nth [OF len j(2)] by simp
next
  fix m
  assume m: "(m = 0 \<or> n < m) \<and> m < u"
  with ok have "campos f m = (0, 0, 0, 0)" unfolding campos_ok_def by blast
  then show "campos (zera_mes j f) m = (0, 0, 0, 0)"
    using campos_zera_nth [OF len j(2)] by simp
qed

lemma campos_ok_grava:
  assumes ok: "campos_ok ps imp n (Suc ex) f" and len: "comprimentos (Suc ex) f"
    and j: "n < ex"
  shows "campos_ok ps imp n ex (grava_extra ex v f)"
  unfolding campos_ok_def
proof (intro allI conjI impI)
  have ex: "ex < Suc ex" by simp
  fix m
  assume m: "1 \<le> m \<and> m \<le> n"
  with j have "m \<noteq> ex" "m \<le> ex" by simp_all
  then have "tributos_do_mes ps imp m (fluxo_bruta (grava_extra ex v f))
      = tributos_do_mes ps imp m (fluxo_bruta f)"
    unfolding bruta_grava by (simp add: tributos_update_fora)
  moreover from m ok have "campos f m = tributos_do_mes ps imp m (fluxo_bruta f)"
    unfolding campos_ok_def by blast
  ultimately show "campos (grava_extra ex v f) m
      = tributos_do_mes ps imp m (fluxo_bruta (grava_extra ex v f))"
    using \<open>m \<noteq> ex\<close> campos_grava_nth [OF len ex] by simp
next
  have ex: "ex < Suc ex" by simp
  fix m
  assume m: "(m = 0 \<or> n < m) \<and> m < ex"
  with ok have "campos f m = (0, 0, 0, 0)" unfolding campos_ok_def by auto
  moreover from m have "m \<noteq> ex" by simp
  ultimately show "campos (grava_extra ex v f) m = (0, 0, 0, 0)"
    using campos_grava_nth [OF len ex] by simp
qed

lemma calcular_laco:
  "calcular_fluxos_com_impostos ps imp ex pmt =
     grava_extra ex
       (fluxo_extra ps ex
          (fluxo_bruta (fold zera_mes [num_parcelas ps + 1..<ex]
                          (snd (laco ps imp ex pmt (num_parcelas ps))))))
       (fold zera_mes [num_parcelas ps + 1..<ex] (snd (laco ps imp ex pmt (num_parcelas ps))))"
  by (simp add: calcular_fluxos_com_impostos_def laco_def Let_def)

lemma comprimentos_zerados:
  "comprimentos (Suc ex) (fold zera_mes js (snd (laco ps imp ex pmt n)))"
  by (rule fold_inv) (simp_all add: comprimentos_laco comprimentos_zera)

lemma comprimentos_calcular:
  "comprimentos (Suc ex) (calcular_fluxos_com_impostos ps imp ex pmt)"
  unfolding calcular_laco by (rule comprimentos_grava) (rule comprimentos_zerados)

lemma campos_ok_zerados:
  assumes "n \<le> ex"
  shows "campos_ok ps imp n (Suc ex)
           (fold zera_mes [n + 1..<ex] (snd (laco ps imp ex pmt n)))"
proof -
  have "campos_ok ps imp n (Suc ex) (fold zera_mes [n + 1..<ex] (snd (laco ps imp ex pmt n)))
        \<and> comprimentos (Suc ex) (fold zera_mes [n + 1..<ex] (snd (laco ps imp ex pmt n)))"
  proof (rule fold_inv)
    show "campos_ok ps imp n (Suc ex) (snd (laco ps imp ex pmt n))
        \<and> comprimentos (Suc ex) (snd (laco ps imp ex pmt n))"
      using assms by (simp add: campos_ok_laco comprimentos_laco)
  next
    fix j f
    assume j: "j \<in> set [n + 1..<ex]"
      and f: "campos_ok ps imp n (Suc ex) f \<and> comprimentos (Suc ex) f"
    from j have "n < j" "j < Suc ex" by simp_all
    with f have "campos_ok ps imp n (Suc ex) (zera_mes j f)"
      by (blast intro: campos_ok_zera)
    moreover from f have "comprimentos (Suc ex) (zera_mes j f)"
      by (simp add: comprimentos_zera)
    ultimately show "campos_ok ps imp n (Suc ex) (zera_mes j f)
        \<and> comprimentos (Suc ex) (zera_mes j f)" ..
  qed
  then show ?thesis by simp
qed

lemma campos_ok_calcular:
  assumes "num_parcelas ps < ex"
  shows "campos_ok ps imp (num_parcelas ps) ex (calcular_fluxos_com_impostos ps imp ex pmt)"
  unfolding calcular_laco
  using assms
  by (intro campos_ok_grava campos_ok_zerados comprimentos_zerados) simp_all

lemma set_update_cases:
  assumes "x \<in> set (xs[i := v])"
  shows "x = v \<or> x \<in> set xs"
  using assms set_update_subset_insert [of xs i v] by blast

lemma set_drop1_update_cases:
  assumes "x \<in> set (drop (Suc 0) (xs[i := v]))" and "Suc 0 \<le> i"
  shows "x = v \<or> x \<in> set (drop (Suc 0) xs)"
proof -
  from assms(2) have "drop (Suc 0) (xs[i := v]) = (drop (Suc 0) xs)[i - Suc 0 := v]"
    by (rule drop_update_swap)
  with assms(1) show ?thesis by (simp only: set_update_cases)
qed

lemma all_drop1_update:
  assumes "\<forall>x\<in>set (drop 1 xs). P x" and "P v" and "1 \<le> i"
  shows "\<forall>x\<in>set (drop 1 (xs[i := v])). P x"
  using assms set_drop1_update_cases [of _ xs i v] by auto

lemma soma_fatia_nonneg:
  fixes fb :: "real list"
  assumes "\<forall>x\<in>set (drop 1 fb). 0 \<le> x" and "1 \<le> a"
  shows "0 \<le> sum_list (fatia fb a b)"
proof (rule sum_list_nonneg)
  fix x assume "x \<in> set (fatia fb a b)"
  then have "x \<in> set (drop a fb)"
    unfolding fatia_def by (rule in_set_takeD)
  moreover from \<open>1 \<le> a\<close> have "set (drop a fb) \<subseteq> set (drop 1 fb)"
    by (rule set_drop_subset_set_drop)
  ultimately show "0 \<le> x" using assms(1) by blast
qed

lemma base_adicional_nonneg: "0 \<le> base_adicional_de ps b"
  by (simp add: base_adicional_de_def)

lemma fatores_nonneg: "0 \<le> fst (fatores ps imp mes) \<and> 0 \<le> snd (fatores ps imp mes)"
  by (simp add: fatores_def)

lemma tributo_sinais:
  fixes soma fi fc :: real
  assumes "aliquotas_ok ps" and "0 \<le> soma" and "0 \<le> fi" and "0 \<le> fc"
  shows "- (soma * fc * aliquota_cssl ps) \<le> 0 \<and>
         - (soma * fi * aliquota_irpj ps
            + base_adicional_de ps (soma * fi) * aliquota_adicional_irpj ps) \<le> 0 \<and>
         0 \<le> soma * fi \<and> 0 \<le> base_adicional_de ps (soma * fi)"
proof -
  from assms have r: "0 \<le> aliquota_cssl ps" "0 \<le> aliquota_irpj ps"
    "0 \<le> aliquota_adicional_irpj ps" by (simp_all add: aliquotas_ok_def)
  from assms have b: "0 \<le> soma * fi" "0 \<le> soma * fc" by simp_all
  have a: "0 \<le> base_adicional_de ps (soma * fi)" by (rule base_adicional_nonneg)
  from b(2) r(1) have "0 \<le> soma * fc * aliquota_cssl ps" by (rule mult_nonneg_nonneg)
  moreover from b(1) r(2) have "0 \<le> soma * fi * aliquota_irpj ps"
    by (rule mult_nonneg_nonneg)
  moreover from a r(3) have
    "0 \<le> base_adicional_de ps (soma * fi) * aliquota_adicional_irpj ps"
    by (rule mult_nonneg_nonneg)
  ultimately show ?thesis using a b by simp
qed

lemma tributos_sinais:
  assumes al: "aliquotas_ok ps" and fb: "\<forall>x\<in>set (drop 1 fb). 0 \<le> x"
    and imp: "\<forall>m\<in>set imp. 4 \<le> m"
  shows "sinais4 (tributos_do_mes ps imp mes fb)"
proof (cases "mes \<in> set imp")
  case True
  with imp have "1 \<le> mes - 3" by auto
  with fb have s: "0 \<le> sum_list (fatia fb (mes - 3) mes)" by (rule soma_fatia_nonneg)
  from fatores_nonneg [of ps imp mes]
  have f: "0 \<le> fst (fatores ps imp mes)" "0 \<le> snd (fatores ps imp mes)" by simp_all
  from tributo_sinais [OF al s f] True
  show ?thesis by (simp add: sinais4_def tributos_do_mes_def Let_def)
next
  case False
  then show ?thesis by (simp add: sinais4_def tributos_do_mes_def)
qed

lemma extra_sinais:
  assumes al: "aliquotas_ok ps" and fb: "\<forall>x\<in>set (drop 1 fb). 0 \<le> x"
    and ex: "3 \<le> num_parcelas ps \<longrightarrow> 4 \<le> ex"
  shows "sinais4 (fluxo_extra ps ex fb)"
proof (cases "3 \<le> num_parcelas ps")
  case True
  with ex have "1 \<le> ex - 3" by auto
  with fb have s: "0 \<le> sum_list (fatia fb (ex - 3) ex)" by (rule soma_fatia_nonneg)
  have k: "(0::real) \<le> 0.32" "(0::real) \<le> 0.08" "(0::real) \<le> 0.12" by simp_all
  show ?thesis
  proof (cases "lower (tipo_operacao ps) = ''aluguel''")
    case a: True
    from tributo_sinais [OF al s k(1) k(1)] True a
    show ?thesis by (simp add: sinais4_def fluxo_extra_def Let_def)
  next
    case c: False
    from tributo_sinais [OF al s k(2) k(3)] True c
    show ?thesis by (simp add: sinais4_def fluxo_extra_def Let_def)
  qed
next
  case False
  then show ?thesis by (simp add: sinais4_def fluxo_extra_def)
qed

lemma sinais_passo:
  assumes al: "aliquotas_ok ps" and imp: "\<forall>m\<in>set imp. 4 \<le> m" and mes: "1 \<le> mes"
    and s: "0 \<le> fst s \<and> sinais_ok (snd s)"
  shows "0 \<le> fst (passo_parcela ps imp mes s) \<and> sinais_ok (snd (passo_parcela ps imp mes s))"
proof -
  define pmt_atual where "pmt_atual = fst (passo_parcela ps imp mes s)"
  define fb where "fb = (fluxo_bruta (snd s))[mes := pmt_atual]"
  define t where "t = tributos_do_mes ps imp mes fb"
  from al have inf: "0 \<le> 1 + inflacao_anual ps" by (simp add: aliquotas_ok_def)
  from al have r: "0 \<le> aliquota_pis ps" "0 \<le> aliquota_cofins ps"
    by (simp_all add: aliquotas_ok_def)
  have p: "0 \<le> pmt_atual"
    unfolding pmt_atual_def using s inf by (simp add: passo_parcela_def Let_def)
  from s have "\<forall>x\<in>set (drop 1 (fluxo_bruta (snd s))). 0 \<le> x" by (simp add: sinais_ok_def)
  then have fbn: "\<forall>x\<in>set (drop 1 fb). 0 \<le> x"
    unfolding fb_def using p mes by (rule all_drop1_update)
  with al imp have t4: "sinais4 t" unfolding t_def by (intro tributos_sinais)
  from p r have pc: "- (pmt_atual * aliquota_pis ps) \<le> 0" "- (pmt_atual * aliquota_cofins ps) \<le> 0"
    by simp_all
  have e: "snd (passo_parcela ps imp mes s) =
      (snd s)\<lparr>fluxo_bruta := fb,
        custos_pis := (custos_pis (snd s))[mes := - (pmt_atual * aliquota_pis ps)],
        custos_cofins := (custos_cofins (snd s))[mes := - (pmt_atual * aliquota_cofins ps)],
        custos_cssl := (custos_cssl (snd s))[mes := fst t],
        custos_irpj := (custos_irpj (snd s))[mes := fst (snd t)],
        bases_irpj := (bases_irpj (snd s))[mes := fst (snd (snd t))],
        bases_adicional_irpj := (bases_adicional_irpj (snd s))[mes := snd (snd (snd t))],
        fluxo_liquida := (fluxo_liquida (snd s))
           [mes := fb ! mes + - (pmt_atual * aliquota_pis ps) + - (pmt_atual * aliquota_cofins ps)
                   + fst t + fst (snd t)]\<rparr>"
    unfolding t_def fb_def pmt_atual_def by (simp add: passo_parcela_def Let_def)
  from s t4 pc fbn have "sinais_ok (snd (passo_parcela ps imp mes s))"
    unfolding e sinais_ok_def sinais4_def by (auto dest!: set_update_cases)
  with p show ?thesis unfolding pmt_atual_def by simp
qed

lemma sinais_zera:
  assumes "sinais_ok f" and "1 \<le> j"
  shows "sinais_ok (zera_mes j f)"
  using assms unfolding sinais_ok_def zera_mes_def
  by (auto dest!: set_update_cases set_drop1_update_cases)

lemma sinais_grava:
  assumes "sinais_ok f" and "1 \<le> ex" and "sinais4 v"
  shows "sinais_ok (grava_extra ex v f)"
  using assms unfolding sinais_ok_def grava_extra_def Let_def sinais4_def
  by (auto dest!: set_update_cases set_drop1_update_cases)

lemma sinais_iniciais: "sinais_ok (fluxos_iniciais ps ex)"
  by (simp add: sinais_ok_def fluxos_iniciais_def drop_update_cancel del: replicate.simps)


lemma sinais_laco:
  assumes "aliquotas_ok ps" and "\<forall>m\<in>set imp. 4 \<le> m" and "0 \<le> pmt"
  shows "0 \<le> fst (laco ps imp ex pmt k) \<and> sinais_ok (snd (laco ps imp ex pmt k))"
proof (induction k)
  case 0
  from assms(3) show ?case by (simp add: laco_0 sinais_iniciais)
next
  case (Suc k)
  have "1 \<le> Suc k" by simp
  with assms(1,2) show ?case unfolding laco_Suc using Suc by (rule sinais_passo)
qed

lemma sinais_zerados:
  assumes "sinais_ok f"
  shows "sinais_ok (fold zera_mes [n + 1..<ex] f)"
proof (rule fold_inv)
  show "sinais_ok f" by (rule assms)
next
  fix j g
  assume "j \<in> set [n + 1..<ex]" and g: "sinais_ok g"
  then have "1 \<le> j" by simp
  with g show "sinais_ok (zera_mes j g)" by (rule sinais_zera)
qed

lemma sinais_calcular:
  assumes al: "aliquotas_ok ps" and imp: "\<forall>m\<in>set imp. 4 \<le> m" and pmt: "0 \<le> pmt"
    and ex: "num_parcelas ps < ex"
  shows "sinais_ok (calcular_fluxos_com_impostos ps imp ex pmt)"
proof -
  let ?f2 = "fold zera_mes [num_parcelas ps + 1..<ex]
               (snd (laco ps imp ex pmt (num_parcelas ps)))"
  from sinais_laco [OF al imp pmt]
  have "sinais_ok (snd (laco ps imp ex pmt (num_parcelas ps)))" by simp
  then have f2: "sinais_ok ?f2" by (rule sinais_zerados)
  then have "\<forall>x\<in>set (drop 1 (fluxo_bruta ?f2)). 0 \<le> x" by (simp add: sinais_ok_def)
  moreover from ex have "3 \<le> num_parcelas ps \<longrightarrow> 4 \<le> ex" by simp
  ultimately have "sinais4 (fluxo_extra ps ex (fluxo_bruta ?f2))"
    using al by (intro extra_sinais)
  moreover from ex have "1 \<le> ex" by simp
  ultimately show ?thesis unfolding calcular_laco using f2 by (intro sinais_grava)
qed

text \<open>
  \<^bold>\<open>C2.\<close> In the schedule the builder returns, at every recognition month \<open>p\<close> the
  IRPJ base is the sum of the three preceding gross flows times the IRPJ factor, the CSSL
  cost is minus that sum times the CSSL factor times the CSSL rate, the surtax base and
  the IRPJ cost follow from the IRPJ base, and the pair (IRPJ factor, CSSL factor) is
  (32%, 32%) under Rental at every recognition month, (32%, 32%) under Purchase when
  \<open>p < num_parcelas\<close> and (8%, 12%) under Purchase when \<open>p = num_parcelas\<close>.  At every
  month below the extra index that is not a recognition month the four fields are zero.
\<close>

theorem C2_fatores_da_base:
  fixes ps :: parametros and ex p :: nat and pmt :: real
  defines "n \<equiv> num_parcelas ps"
  defines "imp \<equiv> impostos_meses (num_parcelas ps)"
  defines "f \<equiv> calcular_fluxos_com_impostos ps (impostos_meses (num_parcelas ps)) ex pmt"
  defines "soma \<equiv> sum_list (fatia (fluxo_bruta
       (calcular_fluxos_com_impostos ps (impostos_meses (num_parcelas ps)) ex pmt)) (p - 3) p)"
  assumes ex: "extra_index (tipo_operacao ps) (num_parcelas ps) = Inr ex"
  shows "(p \<in> set imp \<and> lower (tipo_operacao ps) = ''aluguel'' \<longrightarrow>
            fatores ps imp p = (0.32, 0.32)) \<and>
         (p \<in> set imp \<and> lower (tipo_operacao ps) = ''compra'' \<and> p < n \<longrightarrow>
            fatores ps imp p = (0.32, 0.32)) \<and>
         (p \<in> set imp \<and> lower (tipo_operacao ps) = ''compra'' \<and> p = n \<longrightarrow>
            fatores ps imp p = (0.08, 0.12)) \<and>
         (p \<in> set imp \<longrightarrow>
            bases_irpj f ! p = soma * fst (fatores ps imp p) \<and>
            custos_cssl f ! p = - (soma * snd (fatores ps imp p) * aliquota_cssl ps) \<and>
            bases_adicional_irpj f ! p = base_adicional_de ps (bases_irpj f ! p) \<and>
            custos_irpj f ! p = - (bases_irpj f ! p * aliquota_irpj ps
                                   + bases_adicional_irpj f ! p * aliquota_adicional_irpj ps)) \<and>
         (p \<notin> set imp \<and> p < ex \<longrightarrow>
            custos_cssl f ! p = 0 \<and> custos_irpj f ! p = 0 \<and>
            bases_irpj f ! p = 0 \<and> bases_adicional_irpj f ! p = 0)"
proof -
  from ex have nex: "num_parcelas ps < ex" by (rule extra_index_gt)
  then have ok: "campos_ok ps imp (num_parcelas ps) ex f"
    unfolding f_def imp_def by (rule campos_ok_calcular)
  have a: "p \<in> set imp \<and> lower (tipo_operacao ps) = ''aluguel'' \<longrightarrow>
            fatores ps imp p = (0.32, 0.32)"
    by (simp add: fatores_def)
  have b: "p \<in> set imp \<and> lower (tipo_operacao ps) = ''compra'' \<and> p < n \<longrightarrow>
            fatores ps imp p = (0.32, 0.32)"
    by (simp add: fatores_def n_def)
  have c: "p \<in> set imp \<and> lower (tipo_operacao ps) = ''compra'' \<and> p = n \<longrightarrow>
            fatores ps imp p = (0.08, 0.12)"
    by (auto simp: fatores_def n_def)
  have d: "p \<in> set imp \<longrightarrow>
            bases_irpj f ! p = soma * fst (fatores ps imp p) \<and>
            custos_cssl f ! p = - (soma * snd (fatores ps imp p) * aliquota_cssl ps) \<and>
            bases_adicional_irpj f ! p = base_adicional_de ps (bases_irpj f ! p) \<and>
            custos_irpj f ! p = - (bases_irpj f ! p * aliquota_irpj ps
                                   + bases_adicional_irpj f ! p * aliquota_adicional_irpj ps)"
  proof
    assume p: "p \<in> set imp"
    then have "4 \<le> p \<and> p \<le> num_parcelas ps"
      unfolding imp_def by (rule impostos_meses_ge4)
    then have "1 \<le> p \<and> p \<le> num_parcelas ps" by simp
    with ok have "campos f p = tributos_do_mes ps imp p (fluxo_bruta f)"
      unfolding campos_ok_def by blast
    with p show "bases_irpj f ! p = soma * fst (fatores ps imp p) \<and>
            custos_cssl f ! p = - (soma * snd (fatores ps imp p) * aliquota_cssl ps) \<and>
            bases_adicional_irpj f ! p = base_adicional_de ps (bases_irpj f ! p) \<and>
            custos_irpj f ! p = - (bases_irpj f ! p * aliquota_irpj ps
                                   + bases_adicional_irpj f ! p * aliquota_adicional_irpj ps)"
      unfolding soma_def f_def [symmetric]
      by (simp add: campos_def tributos_do_mes_def Let_def)
  qed
  have e: "p \<notin> set imp \<and> p < ex \<longrightarrow>
            custos_cssl f ! p = 0 \<and> custos_irpj f ! p = 0 \<and>
            bases_irpj f ! p = 0 \<and> bases_adicional_irpj f ! p = 0"
  proof
    assume p: "p \<notin> set imp \<and> p < ex"
    have "campos f p = (0, 0, 0, 0)"
    proof (cases "1 \<le> p \<and> p \<le> num_parcelas ps")
      case True
      with ok have "campos f p = tributos_do_mes ps imp p (fluxo_bruta f)"
        unfolding campos_ok_def by blast
      with p show ?thesis by (simp add: tributos_do_mes_def)
    next
      case False
      then have "p = 0 \<or> num_parcelas ps < p" by auto
      with p ok show ?thesis unfolding campos_ok_def by blast
    qed
    then show "custos_cssl f ! p = 0 \<and> custos_irpj f ! p = 0 \<and>
            bases_irpj f ! p = 0 \<and> bases_adicional_irpj f ! p = 0"
      by (simp add: campos_def)
  qed
  from a b c d e show ?thesis by blast
qed

theorem C2_fatores_da_base_witness:
  "extra_index ''Aluguel'' 6 = Inr 7 \<and> 4 \<in> set (impostos_meses 6) \<and>
   lower ''Aluguel'' = ''aluguel'' \<and>
   fatores (ps_exemplo ''Aluguel'' 6) (impostos_meses 6) 4 = (0.32, 0.32) \<and>
   extra_index ''Compra'' 5 = Inr 7 \<and> 4 \<in> set (impostos_meses 5) \<and>
   lower ''Compra'' = ''compra'' \<and> (4::nat) < 5 \<and>
   fatores (ps_exemplo ''Compra'' 5) (impostos_meses 5) 4 = (0.32, 0.32) \<and>
   bases_irpj (calcular_fluxos_com_impostos (ps_exemplo ''Compra'' 5) (impostos_meses 5) 7 100) ! 4
     = sum_list (fatia (fluxo_bruta
         (calcular_fluxos_com_impostos (ps_exemplo ''Compra'' 5) (impostos_meses 5) 7 100))
         (4 - 3) 4) * 0.32 \<and>
   2 \<notin> set (impostos_meses 5) \<and> (2::nat) < 7 \<and>
   custos_cssl (calcular_fluxos_com_impostos (ps_exemplo ''Compra'' 5) (impostos_meses 5) 7 100) ! 2
     = 0 \<and>
   extra_index ''Compra'' 4 = Inr 7 \<and> 4 \<in> set (impostos_meses 4) \<and>
   fatores (ps_exemplo ''Compra'' 4) (impostos_meses 4) 4 = (0.08, 0.12)"
proof -
  have a: "extra_index (tipo_operacao (ps_exemplo ''Aluguel'' 6))
             (num_parcelas (ps_exemplo ''Aluguel'' 6)) = Inr 7"
    unfolding ps_exemplo_sel by (rule extra_index_aluguel_6)
  have b: "extra_index (tipo_operacao (ps_exemplo ''Compra'' 5))
             (num_parcelas (ps_exemplo ''Compra'' 5)) = Inr 7"
    unfolding ps_exemplo_sel by (rule extra_index_compra_5)
  have c: "extra_index (tipo_operacao (ps_exemplo ''Compra'' 4))
             (num_parcelas (ps_exemplo ''Compra'' 4)) = Inr 7"
    unfolding ps_exemplo_sel by (rule extra_index_compra_4)
  from C2_fatores_da_base [OF a, of 4 100] C2_fatores_da_base [OF b, of 4 100]
       C2_fatores_da_base [OF b, of 2 100] C2_fatores_da_base [OF c, of 4 100]
  show ?thesis
    unfolding ps_exemplo_sel
    using extra_index_aluguel_6 extra_index_compra_5 extra_index_compra_4
    by (simp add: impostos_meses_4 impostos_meses_5 impostos_meses_6)
qed

text \<open>
  \<^bold>\<open>C10.\<close> For a candidate payment that is not negative and rates, inflation and
  exemption threshold that are not negative, at every period \<open>0..extra_index\<close> of the
  schedule the builder produces the PIS, COFINS, CSSL and IRPJ costs are \<open>\<le> 0\<close> and the
  IRPJ base and the IRPJ surtax base are \<open>\<ge> 0\<close>.
\<close>

theorem C10_sinais_dos_campos:
  assumes "0 \<le> pmt" and "aliquotas_ok ps"
    and "extra_index (tipo_operacao ps) (num_parcelas ps) = Inr ex"
    and "m \<le> ex"
  shows "custos_pis (calcular_fluxos_com_impostos ps (impostos_meses (num_parcelas ps)) ex pmt) ! m \<le> 0 \<and>
         custos_cofins (calcular_fluxos_com_impostos ps (impostos_meses (num_parcelas ps)) ex pmt) ! m \<le> 0 \<and>
         custos_cssl (calcular_fluxos_com_impostos ps (impostos_meses (num_parcelas ps)) ex pmt) ! m \<le> 0 \<and>
         custos_irpj (calcular_fluxos_com_impostos ps (impostos_meses (num_parcelas ps)) ex pmt) ! m \<le> 0 \<and>
         0 \<le> bases_irpj (calcular_fluxos_com_impostos ps (impostos_meses (num_parcelas ps)) ex pmt) ! m \<and>
         0 \<le> bases_adicional_irpj
               (calcular_fluxos_com_impostos ps (impostos_meses (num_parcelas ps)) ex pmt) ! m"
proof -
  let ?f = "calcular_fluxos_com_impostos ps (impostos_meses (num_parcelas ps)) ex pmt"
  from assms(3) have "num_parcelas ps < ex" by (rule extra_index_gt)
  moreover have "\<forall>m\<in>set (impostos_meses (num_parcelas ps)). 4 \<le> m"
    by (simp add: set_impostos_meses)
  ultimately have s: "sinais_ok ?f" using assms(1,2) by (intro sinais_calcular)
  have "comprimentos (Suc ex) ?f" by (rule comprimentos_calcular)
  with assms(4) have
    "custos_pis ?f ! m \<in> set (custos_pis ?f)"
    "custos_cofins ?f ! m \<in> set (custos_cofins ?f)"
    "custos_cssl ?f ! m \<in> set (custos_cssl ?f)"
    "custos_irpj ?f ! m \<in> set (custos_irpj ?f)"
    "bases_irpj ?f ! m \<in> set (bases_irpj ?f)"
    "bases_adicional_irpj ?f ! m \<in> set (bases_adicional_irpj ?f)"
    by (simp_all add: comprimentos_def)
  with s show ?thesis unfolding sinais_ok_def by blast
qed

theorem C10_sinais_dos_campos_witness:
  "(0::real) \<le> 100 \<and> aliquotas_ok (ps_exemplo ''Compra'' 5) \<and>
   extra_index ''Compra'' 5 = Inr 7 \<and> (4::nat) \<le> 7 \<and>
   custos_cssl (calcular_fluxos_com_impostos (ps_exemplo ''Compra'' 5) (impostos_meses 5) 7 100) ! 4
     \<le> 0 \<and>
   0 \<le> bases_irpj
         (calcular_fluxos_com_impostos (ps_exemplo ''Compra'' 5) (impostos_meses 5) 7 100) ! 4"
proof -
  have b: "extra_index (tipo_operacao (ps_exemplo ''Compra'' 5))
             (num_parcelas (ps_exemplo ''Compra'' 5)) = Inr 7"
    unfolding ps_exemplo_sel by (rule extra_index_compra_5)
  have p: "(0::real) \<le> 100" by simp
  have m: "(4::nat) \<le> 7" by simp
  from C10_sinais_dos_campos [OF p aliquotas_exemplo b m]
  show ?thesis
    unfolding ps_exemplo_sel
    using aliquotas_exemplo [of "''Compra''" 5] extra_index_compra_5 by simp
qed

subsection \<open>Root search\<close>


lemma py_max_Inl: "(py_max xs = Inl e) = (xs = [] \<and> e = ValueError_max_vazio)"
  by (cases xs) auto










text \<open>
  \<^bold>\<open>C8.\<close> In a call of \<open>simular_emprestimo\<close> (the extra index and the recognition
  months are the ones of lines 49--63), for every candidate payment the builder hands
  \<open>npf.irr\<close> a net-flow list with one entry per period \<open>0..extra_index\<close>, and the
  objective of the root search is the rate \<open>npf.irr\<close> returns minus the target rate when
  that is a number, and the sentinel \<open>-1 - tir_desejada\<close> when it is \<open>nan\<close>; the sentinel
  is negative for every target rate above \<open>-1\<close>.  The function has no error result: the
  builder writes only at indices up to the extra index, which is above \<open>num_parcelas\<close>.
\<close>

theorem C8_funcao_goal_seek_impostos:
  fixes ps :: parametros and lib :: numerico and ex :: nat and pmt t :: real
  defines "fl \<equiv> fluxo_liquida
     (calcular_fluxos_com_impostos ps (impostos_meses (num_parcelas ps)) ex pmt)"
  assumes ex: "extra_index (tipo_operacao ps) (num_parcelas ps) = Inr ex"
  shows "num_parcelas ps < ex \<and> length fl = ex + 1 \<and>
         (npf_irr lib fl = Some t \<longrightarrow>
            funcao_goal_seek_impostos lib ps (impostos_meses (num_parcelas ps)) ex pmt
              = t - tir_desejada ps) \<and>
         (npf_irr lib fl = None \<longrightarrow>
            funcao_goal_seek_impostos lib ps (impostos_meses (num_parcelas ps)) ex pmt
              = - 1 - tir_desejada ps \<and>
            (- 1 < tir_desejada ps \<longrightarrow>
               funcao_goal_seek_impostos lib ps (impostos_meses (num_parcelas ps)) ex pmt < 0))"
proof -
  from ex have "num_parcelas ps < ex" by (rule extra_index_gt)
  moreover have "length fl = ex + 1"
    unfolding fl_def
    using comprimentos_calcular [of ex ps "impostos_meses (num_parcelas ps)" pmt]
    by (simp add: comprimentos_def)
  ultimately show ?thesis
    unfolding fl_def by (simp add: funcao_goal_seek_impostos_def)
qed

theorem C8_funcao_goal_seek_impostos_witness:
  "extra_index ''Aluguel'' 1 = Inr 2 \<and>
   npf_irr lib_exemplo
     (fluxo_liquida (calcular_fluxos_com_impostos (ps_exemplo ''Aluguel'' 1)
        (impostos_meses 1) 2 1000))
     = Some (- 0.0365) \<and>
   funcao_goal_seek_impostos lib_exemplo (ps_exemplo ''Aluguel'' 1) (impostos_meses 1) 2 1000
     = - 0.0365 - tir_desejada (ps_exemplo ''Aluguel'' 1) \<and>
   npf_irr lib_exemplo
     (fluxo_liquida (calcular_fluxos_com_impostos (ps_exemplo ''Aluguel'' 1)
        (impostos_meses 1) 2 0))
     = None \<and>
   - 1 < tir_desejada (ps_exemplo ''Aluguel'' 1) \<and>
   funcao_goal_seek_impostos lib_exemplo (ps_exemplo ''Aluguel'' 1) (impostos_meses 1) 2 0
     = - 1 - tir_desejada (ps_exemplo ''Aluguel'' 1) \<and>
   funcao_goal_seek_impostos lib_exemplo (ps_exemplo ''Aluguel'' 1) (impostos_meses 1) 2 0 < 0"
proof -
  have e: "extra_index (tipo_operacao (ps_exemplo ''Aluguel'' 1))
             (num_parcelas (ps_exemplo ''Aluguel'' 1)) = Inr 2"
    unfolding ps_exemplo_sel by (rule extra_index_aluguel_1)
  have t: "- 1 < tir_desejada (ps_exemplo ''Aluguel'' 1)"
    by (simp add: ps_exemplo_def)
  have i: "npf_irr lib_exemplo
     (fluxo_liquida (calcular_fluxos_com_impostos (ps_exemplo ''Aluguel'' 1)
        (impostos_meses 1) 2 1000)) = Some (- 0.0365)"
    unfolding impostos_meses_1 by (rule irr_um_periodo_1000)
  have n: "npf_irr lib_exemplo
     (fluxo_liquida (calcular_fluxos_com_impostos (ps_exemplo ''Aluguel'' 1)
        (impostos_meses 1) 2 0)) = None"
    unfolding impostos_meses_1 by (rule irr_um_periodo_0)
  from C8_funcao_goal_seek_impostos
         [OF e, where lib = lib_exemplo and pmt = 1000 and t = "- 0.0365"]
       C8_funcao_goal_seek_impostos [OF e, where lib = lib_exemplo and pmt = 0]
  show ?thesis
    unfolding ps_exemplo_sel using i n t extra_index_aluguel_1 by blast
qed




subsection \<open>Report table\<close>

lemma impostos_meses_vazio: "n \<le> 3 \<Longrightarrow> impostos_meses n = []"
  by (simp add: impostos_meses_def)

lemma montar_df_vazio: "montar_df ps [] ex f = Inl ValueError_max_vazio"
  by (simp add: montar_df_def)

lemma simular_emprestimo_poucas_parcelas:
  assumes "num_parcelas ps \<le> 3"
  shows "simular_emprestimo lib ps pmt_min pmt_max n_points
           \<in> {Inl ValueError_tipo_invalido, Inl ValueError_nenhuma_solucao,
              Inl ValueError_max_vazio}"
proof -
  have i: "impostos_meses (num_parcelas ps) = []"
    using assms by (rule impostos_meses_vazio)
  show ?thesis
  proof (cases "extra_index (tipo_operacao ps) (num_parcelas ps)")
    case (Inl e)
    then have "e = ValueError_tipo_invalido"
      by (auto simp: extra_index_def split: if_splits)
    with Inl show ?thesis by (simp add: simular_emprestimo_def Let_def)
  next
    case (Inr ex)
    let ?pt = "\<bar>npf_pmt lib (tir_desejada ps) (num_parcelas ps) (valor_emprestado ps)\<bar>"
    let ?pmin = "case pmt_min of None \<Rightarrow> ?pt | Some v \<Rightarrow> v"
    let ?pmax = "case pmt_max of None \<Rightarrow> ?pt * 2 | Some v \<Rightarrow> v"
    show ?thesis
    proof (cases "pmt_otimizada lib (funcao_goal_seek_impostos lib ps [] ex)
                    ?pmin ?pmax n_points")
      case (Inl e)
      then have "e = ValueError_nenhuma_solucao"
        by (auto simp: pmt_otimizada_def Let_def py_max_Inl split: if_splits)
      with Inl \<open>extra_index (tipo_operacao ps) (num_parcelas ps) = Inr ex\<close> i
      show ?thesis by (simp add: simular_emprestimo_def Let_def)
    next
      case (Inr p)
      with \<open>extra_index (tipo_operacao ps) (num_parcelas ps) = Inr ex\<close> i
      show ?thesis by (simp add: simular_emprestimo_def Let_def montar_df_vazio)
    qed
  qed
qed

lemma simular_um_periodo:
  "simular_emprestimo lib_exemplo (ps_exemplo ''Aluguel'' 1) (Some 1000) (Some 1100) 2
     = Inl ValueError_max_vazio"
  unfolding simular_emprestimo_def Let_def ps_exemplo_sel impostos_meses_1 extra_index_aluguel_1
  by (simp add: pmt_otimizada_um_periodo montar_df_vazio del: One_nat_def)

lemma campos_calcular_extra:
  "campos (calcular_fluxos_com_impostos ps imp ex pmt) ex =
     fluxo_extra ps ex
       (fluxo_bruta (fold zera_mes [num_parcelas ps + 1..<ex]
                       (snd (laco ps imp ex pmt (num_parcelas ps)))))"
proof -
  have l: "comprimentos (Suc ex)
             (fold zera_mes [num_parcelas ps + 1..<ex]
                (snd (laco ps imp ex pmt (num_parcelas ps))))"
    by (rule comprimentos_zerados)
  have e: "ex < Suc ex" by simp
  show ?thesis unfolding calcular_laco campos_grava_nth [OF l e] by simp
qed

lemma campos_extra_zero:
  assumes "num_parcelas ps < 3"
  shows "campos (calcular_fluxos_com_impostos ps imp ex pmt) ex = (0, 0, 0, 0)"
  unfolding campos_calcular_extra using assms by (simp add: fluxo_extra_def)

text \<open>
  \<^bold>\<open>C3\<close> (the code departs from the claim).  With one or two installments the builder
  does leave the four tax fields of the extra period at zero, but \<open>simular_emprestimo\<close>
  never returns: whatever the library and the search range, the call ends in one of the
  three \<open>ValueError\<close>s, and when the operation type is valid and the root search finds a
  payment it is the \<open>ValueError\<close> that \<open>max(impostos_meses)\<close> raises on the empty list
  at line 299.  The last conjunct runs the whole function on a one-installment Rental
  loan for which the search finds the payment \<open>2048000 / 1927\<close>.
\<close>

theorem C3_poucas_parcelas_levanta_erro:
  "campos (calcular_fluxos_com_impostos (ps\<lparr>num_parcelas := 1\<rparr>) imp ex pmt) ex = (0, 0, 0, 0) \<and>
   campos (calcular_fluxos_com_impostos (ps\<lparr>num_parcelas := 2\<rparr>) imp ex pmt) ex = (0, 0, 0, 0) \<and>
   simular_emprestimo lib (ps\<lparr>num_parcelas := 1\<rparr>) pmt_min pmt_max n_points
     \<in> {Inl ValueError_tipo_invalido, Inl ValueError_nenhuma_solucao,
        Inl ValueError_max_vazio} \<and>
   simular_emprestimo lib (ps\<lparr>num_parcelas := 2\<rparr>) pmt_min pmt_max n_points
     \<in> {Inl ValueError_tipo_invalido, Inl ValueError_nenhuma_solucao,
        Inl ValueError_max_vazio} \<and>
   extra_index ''Aluguel'' 1 = Inr 2 \<and>
   pmt_otimizada lib_exemplo
     (funcao_goal_seek_impostos lib_exemplo (ps_exemplo ''Aluguel'' 1) (impostos_meses 1) 2)
     1000 1100 2 = Inr (2048000 / 1927) \<and>
   simular_emprestimo lib_exemplo (ps_exemplo ''Aluguel'' 1) (Some 1000) (Some 1100) 2
     = Inl ValueError_max_vazio"
proof -
  have "campos (calcular_fluxos_com_impostos (ps\<lparr>num_parcelas := 1\<rparr>) imp ex pmt) ex
      = (0, 0, 0, 0)"
    by (rule campos_extra_zero) simp
  moreover have "campos (calcular_fluxos_com_impostos (ps\<lparr>num_parcelas := 2\<rparr>) imp ex pmt) ex
      = (0, 0, 0, 0)"
    by (rule campos_extra_zero) simp
  moreover have "simular_emprestimo lib (ps\<lparr>num_parcelas := 1\<rparr>) pmt_min pmt_max n_points
     \<in> {Inl ValueError_tipo_invalido, Inl ValueError_nenhuma_solucao,
        Inl ValueError_max_vazio}"
    by (rule simular_emprestimo_poucas_parcelas) simp
  moreover have "simular_emprestimo lib (ps\<lparr>num_parcelas := 2\<rparr>) pmt_min pmt_max n_points
     \<in> {Inl ValueError_tipo_invalido, Inl ValueError_nenhuma_solucao,
        Inl ValueError_max_vazio}"
    by (rule simular_emprestimo_poucas_parcelas) simp
  moreover have "pmt_otimizada lib_exemplo
     (funcao_goal_seek_impostos lib_exemplo (ps_exemplo ''Aluguel'' 1) (impostos_meses 1) 2)
     1000 1100 2 = Inr (2048000 / 1927)"
    unfolding impostos_meses_1 by (rule pmt_otimizada_um_periodo)
  ultimately show ?thesis
    using extra_index_aluguel_1 simular_um_periodo by blast
qed

text \<open>A five-installment Purchase loan: one recognition month, extra index 7.\<close>

lemma upt_0_8: "[0..<8] = [0, 1, 2, 3, 4, 5, 6, 7::nat]"
  by code_simp

lemma upt_1_6: "[1..<5 + 1] = [1, 2, 3, 4, 5::nat]"
  by code_simp

lemma fluxos_compra_5:
  "calcular_fluxos_com_impostos (ps_exemplo ''Compra'' 5) [4] 7 p =
     \<lparr>fluxo_bruta = [- 1000, p, p, p, p, p, 0, 0],
      fluxo_liquida =
        [- 1000, p - p * 0.0065 - p * 0.03, p - p * 0.0065 - p * 0.03,
         p - p * 0.0065 - p * 0.03,
         p - p * 0.0065 - p * 0.03 - (p + p + p) * 0.32 * 0.09
           - ((p + p + p) * 0.32 * 0.15
              + base_adicional_de (ps_exemplo ''Compra'' 5) ((p + p + p) * 0.32) * 0.10),
         p - p * 0.0065 - p * 0.03, 0,
         - ((p + p) * 0.12 * 0.09)
           - ((p + p) * 0.08 * 0.15
              + base_adicional_de (ps_exemplo ''Compra'' 5) ((p + p) * 0.08) * 0.10)],
      custos_pis = [0, - (p * 0.0065), - (p * 0.0065), - (p * 0.0065), - (p * 0.0065),
                    - (p * 0.0065), 0, 0],
      custos_cofins = [0, - (p * 0.03), - (p * 0.03), - (p * 0.03), - (p * 0.03),
                       - (p * 0.03), 0, 0],
      custos_cssl = [0, 0, 0, 0, - ((p + p + p) * 0.32 * 0.09), 0, 0,
                     - ((p + p) * 0.12 * 0.09)],
      custos_irpj = [0, 0, 0, 0,
         - ((p + p + p) * 0.32 * 0.15
              + base_adicional_de (ps_exemplo ''Compra'' 5) ((p + p + p) * 0.32) * 0.10),
         0, 0,
         - ((p + p) * 0.08 * 0.15
              + base_adicional_de (ps_exemplo ''Compra'' 5) ((p + p) * 0.08) * 0.10)],
      bases_irpj = [0, 0, 0, 0, (p + p + p) * 0.32, 0, 0, (p + p) * 0.08],
      bases_adicional_irpj = [0, 0, 0, 0,
         base_adicional_de (ps_exemplo ''Compra'' 5) ((p + p + p) * 0.32), 0, 0,
         base_adicional_de (ps_exemplo ''Compra'' 5) ((p + p) * 0.08)]\<rparr>"
  unfolding calcular_fluxos_com_impostos_def ps_exemplo_sel upt_1_6
  by (simp add: fluxos_iniciais_def passo_parcela_def tributos_do_mes_def fatores_def
        zera_mes_def grava_extra_def fluxo_extra_def fatia_def Let_def
        replicate_numeral list_update_Cons_numeral)
     (simp add: ps_exemplo_def)

lemma relatorio_compra_5:
  "\<exists>df. montar_df (ps_exemplo ''Compra'' 5) [4] 7
          (calcular_fluxos_com_impostos (ps_exemplo ''Compra'' 5) [4] 7 p) = Inr df \<and>
        df_Mes df = [0, 1, 2, 3, 4, 5, 6, 7] \<and>
        df_Bruta df = [- 1000, p, p, p, p, p, 0, 0] \<and>
        df_Base_CSSL df = [0, 0, 0, 0, (p + p + p) * 0.12, 0, 0, (p + p) * 0.12] \<and>
        df_Base_IRPJ df = [0, 0, 0, 0, (p + p + p) * 0.08, 0, 0, (p + p) * 0.08] \<and>
        df_CSSL df = [0, 0, 0, 0, - ((p + p + p) * 0.12 * 0.09), 0, 0,
                      - ((p + p) * 0.12 * 0.09)]"
  unfolding fluxos_compra_5
  by (simp add: montar_df_def df_inicial_def passo_relatorio_def relatorio_extra_def
        loc_fatia_def Let_def replicate_numeral list_update_Cons_numeral upt_0_8)
     (simp add: ps_exemplo_def)

text \<open>
  \<^bold>\<open>C1\<close> (the code departs from the claim).  For a Purchase loan of five installments
  the only recognition month is 4, which is below \<open>num_parcelas\<close>.  For every payment
  \<open>p\<close> the builder stores the IRPJ base \<open>3 p \<times> 32%\<close> and the CSSL cost
  \<open>-(3 p \<times> 32% \<times> 9%)\<close> at month 4, while the report table shows the IRPJ base
  \<open>3 p \<times> 8%\<close>, the CSSL base \<open>3 p \<times> 12%\<close> and the CSSL cost \<open>-(3 p \<times> 12% \<times> 9%)\<close>:
  the loop of lines 259--297 switches factors at \<open>max(impostos_meses)\<close>, the builder at
  \<open>num_parcelas\<close>.  At the extra period (month 7) the two agree.
\<close>

theorem C1_relatorio_diverge_do_construtor:
  "impostos_meses 5 = [4] \<and> extra_index ''Compra'' 5 = Inr 7 \<and>
   bases_irpj (calcular_fluxos_com_impostos (ps_exemplo ''Compra'' 5) (impostos_meses 5) 7 p) ! 4
     = 3 * p * 0.32 \<and>
   custos_cssl (calcular_fluxos_com_impostos (ps_exemplo ''Compra'' 5) (impostos_meses 5) 7 p) ! 4
     = - (3 * p * 0.32 * 0.09) \<and>
   bases_irpj (calcular_fluxos_com_impostos (ps_exemplo ''Compra'' 5) (impostos_meses 5) 7 p) ! 7
     = 2 * p * 0.08 \<and>
   (\<exists>df. montar_df (ps_exemplo ''Compra'' 5) (impostos_meses 5) 7
            (calcular_fluxos_com_impostos (ps_exemplo ''Compra'' 5) (impostos_meses 5) 7 p)
          = Inr df \<and>
        df_Base_IRPJ df ! 4 = 3 * p * 0.08 \<and>
        df_Base_CSSL df ! 4 = 3 * p * 0.12 \<and>
        df_CSSL df ! 4 = - (3 * p * 0.12 * 0.09) \<and>
        df_Base_IRPJ df ! 7 = 2 * p * 0.08)"
proof -
  from relatorio_compra_5 [of p] obtain df where
    df: "montar_df (ps_exemplo ''Compra'' 5) [4] 7
          (calcular_fluxos_com_impostos (ps_exemplo ''Compra'' 5) [4] 7 p) = Inr df"
    and c: "df_Base_CSSL df = [0, 0, 0, 0, (p + p + p) * 0.12, 0, 0, (p + p) * 0.12]"
    and i: "df_Base_IRPJ df = [0, 0, 0, 0, (p + p + p) * 0.08, 0, 0, (p + p) * 0.08]"
    and v: "df_CSSL df = [0, 0, 0, 0, - ((p + p + p) * 0.12 * 0.09), 0, 0,
                      - ((p + p) * 0.12 * 0.09)]"
    by blast
  have "df_Base_IRPJ df ! 4 = 3 * p * 0.08 \<and> df_Base_CSSL df ! 4 = 3 * p * 0.12 \<and>
        df_CSSL df ! 4 = - (3 * p * 0.12 * 0.09) \<and> df_Base_IRPJ df ! 7 = 2 * p * 0.08"
    unfolding c i v by simp
  with df have "\<exists>df. montar_df (ps_exemplo ''Compra'' 5) (impostos_meses 5) 7
            (calcular_fluxos_com_impostos (ps_exemplo ''Compra'' 5) (impostos_meses 5) 7 p)
          = Inr df \<and>
        df_Base_IRPJ df ! 4 = 3 * p * 0.08 \<and>
        df_Base_CSSL df ! 4 = 3 * p * 0.12 \<and>
        df_CSSL df ! 4 = - (3 * p * 0.12 * 0.09) \<and>
        df_Base_IRPJ df ! 7 = 2 * p * 0.08"
    unfolding impostos_meses_5 by blast
  moreover have
    "bases_irpj (calcular_fluxos_com_impostos (ps_exemplo ''Compra'' 5) (impostos_meses 5) 7 p) ! 4
       = 3 * p * 0.32"
    "custos_cssl (calcular_fluxos_com_impostos (ps_exemplo ''Compra'' 5) (impostos_meses 5) 7 p) ! 4
       = - (3 * p * 0.32 * 0.09)"
    "bases_irpj (calcular_fluxos_com_impostos (ps_exemplo ''Compra'' 5) (impostos_meses 5) 7 p) ! 7
       = 2 * p * 0.08"
    unfolding impostos_meses_5 fluxos_compra_5 by simp_all
  ultimately show ?thesis
    using impostos_meses_5 extra_index_compra_5 by blast
qed

subsection \<open>Investor recovery\<close>

lemma recuperacao_ir_compra_maiuscula:
  "recuperacao_ir ''Compra'' r linhas = map (\<lambda>l. snd l * r) linhas"
  by (simp add: recuperacao_ir_def parcela_def)

lemma soma_ajustada_compra_maiuscula:
  "soma_ajustada ''Compra'' r cdi linhas = soma_ajustada ''Aluguel'' r cdi linhas"
  by (simp add: soma_ajustada_def)

lemma linhas_compra_5:
  assumes "df_Mes df = [0, 1, 2, 3, 4, 5, 6, 7]"
    and "df_Bruta df = [- 1000, 100, 100, 100, 100, 100, 0, 0]"
  shows "linhas_recuperacao df =
           [(0, 0), (1, 100), (2, 100), (3, 100), (4, 100), (5, 100), (6, 0), (7, 0)]"
  using assms by (simp add: linhas_recuperacao_def)

text \<open>With the lower-case \<open>"compra"\<close> the Purchase branch runs, and because every row
  of the formatted table passes the filter of line 651, \<open>max_mes\<close> is the extra index:
  in the five-installment schedule (extra index 7) only months 4 and 5 lose the
  recovery.\<close>

lemma recuperacao_ir_compra_minuscula_exemplo:
  "recuperacao_ir ''compra'' 0.34
     [(0, 0), (1, 100), (2, 100), (3, 100), (4, 100), (5, 100), (6, 0), (7, 0)]
     = [0, 34, 34, 34, 0, 0, 0, 0]"
  by (simp add: recuperacao_ir_def parcela_def max_mes_def)

text \<open>
  \<^bold>\<open>C4\<close> (the code departs from the claim).  The select box of line 333 stores
  \<open>"Compra"\<close>, and lines 682 and 697 compare the stored value with \<open>"compra"\<close> without
  lowering it, so the Purchase branch is never taken: for every table the recovery
  column is \<open>installment \<times> recoveryRate\<close> in every row, the last four installments
  included, and the discounted initial balance is the one of a Rental operation.  The
  last conjunct runs the report table of the five-installment Purchase schedule with the
  payment 100 through lines 581--685 at the rate 34%: the installments of months 2 to 5
  each receive 34.
\<close>

theorem C4_recuperacao_compra_sem_efeito:
  "recuperacao_ir ''Compra'' r linhas = map (\<lambda>l. snd l * r) linhas \<and>
   soma_ajustada ''Compra'' r cdi linhas = soma_ajustada ''Aluguel'' r cdi linhas \<and>
   (\<exists>df. montar_df (ps_exemplo ''Compra'' 5) (impostos_meses 5) 7
            (calcular_fluxos_com_impostos (ps_exemplo ''Compra'' 5) (impostos_meses 5) 7 100)
          = Inr df \<and>
        linhas_recuperacao df =
          [(0, 0), (1, 100), (2, 100), (3, 100), (4, 100), (5, 100), (6, 0), (7, 0)] \<and>
        recuperacao_ir ''Compra'' 0.34 (linhas_recuperacao df)
          = [0, 34, 34, 34, 34, 34, 0, 0])"
proof -
  from relatorio_compra_5 [of 100] obtain df where
    df: "montar_df (ps_exemplo ''Compra'' 5) [4] 7
          (calcular_fluxos_com_impostos (ps_exemplo ''Compra'' 5) [4] 7 100) = Inr df"
    and m: "df_Mes df = [0, 1, 2, 3, 4, 5, 6, 7]"
    and b: "df_Bruta df = [- 1000, 100, 100, 100, 100, 100, 0, 0]"
    by blast
  from m b have l: "linhas_recuperacao df =
      [(0, 0), (1, 100), (2, 100), (3, 100), (4, 100), (5, 100), (6, 0), (7, 0)]"
    by (rule linhas_compra_5)
  have "recuperacao_ir ''Compra'' 0.34 (linhas_recuperacao df)
      = [0, 34, 34, 34, 34, 34, 0, 0]"
    unfolding l recuperacao_ir_compra_maiuscula by simp
  with df l have "\<exists>df. montar_df (ps_exemplo ''Compra'' 5) (impostos_meses 5) 7
            (calcular_fluxos_com_impostos (ps_exemplo ''Compra'' 5) (impostos_meses 5) 7 100)
          = Inr df \<and>
        linhas_recuperacao df =
          [(0, 0), (1, 100), (2, 100), (3, 100), (4, 100), (5, 100), (6, 0), (7, 0)] \<and>
        recuperacao_ir ''Compra'' 0.34 (linhas_recuperacao df)
          = [0, 34, 34, 34, 34, 34, 0, 0]"
    unfolding impostos_meses_5 by blast
  then show ?thesis
    using recuperacao_ir_compra_maiuscula [of r linhas]
      soma_ajustada_compra_maiuscula [of r cdi linhas] by blast
qed


end
